theory Spec2Isabelle
  imports Complex_Main
begin

section \<open>Data model (app/models/models.py)\<close>

text \<open>
  The enumerations of \<^verbatim>\<open>models.py\<close>, with the string value of each member.
\<close>

datatype ComplaintStatus = SUBMITTED | UNDER_REVIEW | IN_PROGRESS | RESOLVED | CLOSED | ESCALATED

datatype ComplaintPriority = LOW | MEDIUM | HIGH | URGENT

datatype ComplaintCategory =
    ACADEMIC | HOUSING | HARASSMENT | FINANCIAL | FACILITIES | DISCRIMINATION
  | SAFETY | TECHNOLOGY | FOOD_SERVICES | TRANSPORTATION | OTHER

datatype UserRole = STUDENT | ADMIN | STAFF | SUPER_ADMIN

fun status_value :: "ComplaintStatus \<Rightarrow> string" where
  "status_value SUBMITTED = ''submitted''"
| "status_value UNDER_REVIEW = ''under_review''"
| "status_value IN_PROGRESS = ''in_progress''"
| "status_value RESOLVED = ''resolved''"
| "status_value CLOSED = ''closed''"
| "status_value ESCALATED = ''escalated''"

fun priority_value :: "ComplaintPriority \<Rightarrow> string" where
  "priority_value LOW = ''low''"
| "priority_value MEDIUM = ''medium''"
| "priority_value HIGH = ''high''"
| "priority_value URGENT = ''urgent''"




text \<open>
  The tables. A row is a record; a column that may be NULL is an \<open>option\<close>. Primary and
  foreign keys are Python integers. Points in time (\<^verbatim>\<open>datetime\<close>) are counted in seconds
  from a fixed origin. The many-to-many relation \<^verbatim>\<open>complaint_assignments\<close> is kept with
  the complaint, as the list of the assigned users' ids (\<^verbatim>\<open>Complaint.assigned_to\<close>).
  Columns that hold free text for display only (titles, descriptions, message bodies,
  names, phone numbers) play no part in the rules below and are left out, as are
  password hashes and the time of the last login, which \<^verbatim>\<open>get_current_user\<close> writes on
  every authenticated request.
\<close>

record University =
  uni_id :: int
  uni_code :: string

record Department =
  d_id :: int
  d_university_id :: int

record User =
  u_id :: int
  u_email :: string
  u_username :: string
  u_role :: UserRole
  u_department_id :: "int option"
  u_university_id :: int
  u_is_active :: bool

record Complaint =
  c_id :: int
  c_category :: ComplaintCategory
  c_priority :: ComplaintPriority
  c_status :: ComplaintStatus
  c_complainant_id :: int
  c_university_id :: int
  c_department_id :: "int option"
  c_resolution :: "string option"
  c_resolved_at :: "int option"
  c_resolved_by_id :: "int option"
  c_created_at :: "int option"
  c_due_date :: "int option"
  c_satisfaction_rating :: "int option"
  c_assigned_to :: "int list"

text \<open>
  The column \<^verbatim>\<open>uploaded_by_id\<close> of an attachment is declared \<^verbatim>\<open>nullable=False\<close>. The
  Python object of a row can still lack the value, so the field is an \<open>option\<close>; the
  table refuses a row without it (see \<open>crud_attachment_create\<close>).
\<close>

record Attachment =
  at_id :: int
  at_original_filename :: string
  at_file_size :: int
  at_complaint_id :: int
  at_uploaded_by_id :: "int option"

record Message =
  m_id :: int
  m_complaint_id :: int
  m_sender_id :: int
  m_is_internal :: bool
  m_created_at :: int

record Activity =
  a_action :: string
  a_complaint_id :: int
  a_user_id :: int
  a_old_value :: "string option"
  a_new_value :: "string option"

record Notification =
  n_id :: int
  n_title :: string
  n_user_id :: int
  n_complaint_id :: "int option"
  n_is_read :: bool
  n_notification_type :: string

section \<open>Authorization (app/core/security.py)\<close>

text \<open>
  \<^verbatim>\<open>can_access_complaint(current_user)\<close> returns the closure \<^verbatim>\<open>check_access\<close>; the two
  arguments are taken together here. \<^verbatim>\<open>current_user in complaint.assigned_to\<close> compares
  rows of the users table, that is, primary keys.
\<close>

definition can_access_complaint :: "User \<Rightarrow> Complaint \<Rightarrow> bool" where
  "can_access_complaint current_user complaint =
     (if u_role current_user = SUPER_ADMIN then True
      else if u_university_id current_user \<noteq> c_university_id complaint then False
      else if c_complainant_id complaint = u_id current_user then True
      else if u_id current_user \<in> set (c_assigned_to complaint) then True
      else if u_role current_user \<in> set [ADMIN, STAFF] then True
      else False)"


section \<open>The database and its queries (app/crud/crud.py)\<close>

text \<open>
  A table is the list of its rows, and the database is the record of the tables together
  with the last value each primary-key sequence has given out. Three idioms of the
  object-relational layer recur: \<^verbatim>\<open>query.filter(p).first()\<close> is \<open>find p rows\<close>,
  \<^verbatim>\<open>query.filter(p).all()\<close> is \<open>filter p rows\<close>, and a change to an object found by its
  primary key followed by \<^verbatim>\<open>db.commit()\<close> rewrites that one row, which is
  \<open>update_first\<close>. The database is taken to accept every write the handlers issue,
  with one exception: it refuses a row that has no value in a column declared
  \<^verbatim>\<open>nullable=False\<close>, which the attachment insert of \<^verbatim>\<open>upload_file\<close> issues. The other
  failures of the model are the \<^verbatim>\<open>HTTPException\<close>s the handlers raise themselves.
\<close>

record db =
  universities :: "University list"
  departments :: "Department list"
  users :: "User list"
  complaints :: "Complaint list"
  attachments :: "Attachment list"
  messages :: "Message list"
  activities :: "Activity list"
  notifications :: "Notification list"
  university_seq :: int
  user_seq :: int
  complaint_seq :: int
  attachment_seq :: int
  message_seq :: int
  notification_seq :: int

datatype http_error = HTTPException (status_code: int) (detail: string)

fun update_first :: "('a \<Rightarrow> bool) \<Rightarrow> ('a \<Rightarrow> 'a) \<Rightarrow> 'a list \<Rightarrow> 'a list" where
  "update_first p f [] = []"
| "update_first p f (x # xs) = (if p x then f x # xs else x # update_first p f xs)"

text \<open>
  Python's truth test on an optional integer (\<^verbatim>\<open>if department_id:\<close>) fails for
  \<^verbatim>\<open>None\<close> and for 0; on an optional string (\<^verbatim>\<open>if resolution:\<close>) it fails for
  \<^verbatim>\<open>None\<close> and for the empty string.
\<close>

fun truthy_int :: "int option \<Rightarrow> bool" where
  "truthy_int None = False"
| "truthy_int (Some i) = (i \<noteq> 0)"

fun truthy_str :: "string option \<Rightarrow> bool" where
  "truthy_str None = False"
| "truthy_str (Some s) = (s \<noteq> [])"

subsection \<open>Users, universities, departments\<close>

record UserCreate =
  uc_email :: string
  uc_username :: string
  uc_role :: UserRole
  uc_university_id :: int
  uc_department_id :: "int option"

text \<open>
  In an update schema a field is \<open>None\<close> when the request leaves it out
  (\<^verbatim>\<open>dict(exclude_unset=True)\<close> then skips it), and \<open>Some v\<close> when the request sets it
  to \<open>v\<close>. A field that the request sets to the JSON value null is not represented.
\<close>

record UserUpdate =
  uu_email :: "string option"
  uu_department_id :: "int option"

definition crud_user_get :: "db \<Rightarrow> int \<Rightarrow> User option" where
  "crud_user_get d ident = find (\<lambda>u. u_id u = ident) (users d)"

definition crud_user_get_by_email :: "db \<Rightarrow> string \<Rightarrow> User option" where
  "crud_user_get_by_email d email = find (\<lambda>u. u_email u = email) (users d)"

definition crud_user_get_by_username :: "db \<Rightarrow> string \<Rightarrow> User option" where
  "crud_user_get_by_username d username = find (\<lambda>u. u_username u = username) (users d)"

definition crud_user_create :: "db \<Rightarrow> UserCreate \<Rightarrow> User \<times> db" where
  "crud_user_create d obj_in =
     (let db_obj = \<lparr> u_id = user_seq d + 1, u_email = uc_email obj_in,
                      u_username = uc_username obj_in, u_role = uc_role obj_in,
                      u_department_id = uc_department_id obj_in,
                      u_university_id = uc_university_id obj_in, u_is_active = True \<rparr>
      in (db_obj, d\<lparr> users := users d @ [db_obj], user_seq := user_seq d + 1 \<rparr>))"

definition apply_user_update :: "User \<Rightarrow> UserUpdate \<Rightarrow> User" where
  "apply_user_update db_obj obj_in =
     (let u1 = (case uu_email obj_in of None \<Rightarrow> db_obj | Some e \<Rightarrow> db_obj\<lparr> u_email := e \<rparr>)
      in (case uu_department_id obj_in of None \<Rightarrow> u1
          | Some dep \<Rightarrow> u1\<lparr> u_department_id := Some dep \<rparr>))"

definition crud_user_update :: "db \<Rightarrow> User \<Rightarrow> UserUpdate \<Rightarrow> User \<times> db" where
  "crud_user_update d db_obj obj_in =
     (apply_user_update db_obj obj_in,
      d\<lparr> users := update_first (\<lambda>u. u_id u = u_id db_obj)
                     (\<lambda>u. apply_user_update u obj_in) (users d) \<rparr>)"

definition crud_user_get_admins_by_university :: "db \<Rightarrow> int \<Rightarrow> User list" where
  "crud_user_get_admins_by_university d university_id =
     filter (\<lambda>u. u_university_id u = university_id \<and> u_role u \<in> set [ADMIN, STAFF]) (users d)"

definition crud_university_get :: "db \<Rightarrow> int \<Rightarrow> University option" where
  "crud_university_get d ident = find (\<lambda>u. uni_id u = ident) (universities d)"

definition crud_department_get :: "db \<Rightarrow> int \<Rightarrow> Department option" where
  "crud_department_get d ident = find (\<lambda>x. d_id x = ident) (departments d)"

subsection \<open>Complaints\<close>

record ComplaintCreate =
  cc_category :: ComplaintCategory
  cc_priority :: ComplaintPriority
  cc_department_id :: "int option"
  cc_university_id :: int

text \<open>
  Of the fields of \<^verbatim>\<open>ComplaintUpdate\<close>, those of the columns kept in the model. The
  field \<^verbatim>\<open>assigned_to_ids\<close> names no column of the complaint: assigning it leaves the
  assignment as it is.
\<close>

record ComplaintUpdate =
  cu_category :: "ComplaintCategory option"
  cu_priority :: "ComplaintPriority option"
  cu_status :: "ComplaintStatus option"
  cu_department_id :: "int option"
  cu_resolution :: "string option"

record ComplaintStatusUpdate =
  su_status :: ComplaintStatus
  su_resolution :: "string option"

definition crud_complaint_get :: "db \<Rightarrow> int \<Rightarrow> Complaint option" where
  "crud_complaint_get d ident = find (\<lambda>c. c_id c = ident) (complaints d)"

text \<open>
  \<^verbatim>\<open>CRUDComplaint.create\<close>: the columns of the request, the complainant, and the column
  defaults (status \<^verbatim>\<open>submitted\<close>, creation time from the server clock \<open>now\<close>).
\<close>

definition crud_complaint_create :: "db \<Rightarrow> int \<Rightarrow> ComplaintCreate \<Rightarrow> int \<Rightarrow> Complaint \<times> db" where
  "crud_complaint_create d now obj_in complainant_id =
     (let db_obj = \<lparr> c_id = complaint_seq d + 1, c_category = cc_category obj_in,
                      c_priority = cc_priority obj_in, c_status = SUBMITTED,
                      c_complainant_id = complainant_id,
                      c_university_id = cc_university_id obj_in,
                      c_department_id = cc_department_id obj_in,
                      c_resolution = None, c_resolved_at = None, c_resolved_by_id = None,
                      c_created_at = Some now, c_due_date = None,
                      c_satisfaction_rating = None, c_assigned_to = [] \<rparr>
      in (db_obj, d\<lparr> complaints := complaints d @ [db_obj],
                      complaint_seq := complaint_seq d + 1 \<rparr>))"

text \<open>\<^verbatim>\<open>CRUDBase.update\<close> on a complaint: every field the request sets is assigned.\<close>

definition apply_complaint_update :: "Complaint \<Rightarrow> ComplaintUpdate \<Rightarrow> Complaint" where
  "apply_complaint_update db_obj obj_in =
     (let c1 = (case cu_category obj_in of None \<Rightarrow> db_obj
                | Some v \<Rightarrow> db_obj\<lparr> c_category := v \<rparr>);
          c2 = (case cu_priority obj_in of None \<Rightarrow> c1 | Some v \<Rightarrow> c1\<lparr> c_priority := v \<rparr>);
          c3 = (case cu_status obj_in of None \<Rightarrow> c2 | Some v \<Rightarrow> c2\<lparr> c_status := v \<rparr>);
          c4 = (case cu_department_id obj_in of None \<Rightarrow> c3
                | Some v \<Rightarrow> c3\<lparr> c_department_id := Some v \<rparr>)
      in (case cu_resolution obj_in of None \<Rightarrow> c4
          | Some v \<Rightarrow> c4\<lparr> c_resolution := Some v \<rparr>))"

definition crud_complaint_update :: "db \<Rightarrow> Complaint \<Rightarrow> ComplaintUpdate \<Rightarrow> Complaint \<times> db" where
  "crud_complaint_update d db_obj obj_in =
     (apply_complaint_update db_obj obj_in,
      d\<lparr> complaints := update_first (\<lambda>c. c_id c = c_id db_obj)
                          (\<lambda>c. apply_complaint_update c obj_in) (complaints d) \<rparr>)"

text \<open>
  \<^verbatim>\<open>CRUDComplaint.assign_users\<close>: the users whose id is in the list are read from the
  users table, and the complaint's assignment is set to them.
\<close>

definition crud_complaint_assign_users :: "db \<Rightarrow> int \<Rightarrow> int list \<Rightarrow> Complaint option \<times> db" where
  "crud_complaint_assign_users d complaint_id user_ids =
     (case find (\<lambda>c. c_id c = complaint_id) (complaints d) of
        None \<Rightarrow> (None, d)
      | Some complaint \<Rightarrow>
          (let assigned = filter (\<lambda>u. u_id u \<in> set user_ids) (users d);
               complaint' = complaint\<lparr> c_assigned_to := map u_id assigned \<rparr>
           in (Some complaint',
               d\<lparr> complaints := update_first (\<lambda>c. c_id c = complaint_id)
                     (\<lambda>c. c\<lparr> c_assigned_to := map u_id assigned \<rparr>) (complaints d) \<rparr>)))"

text \<open>
  \<^verbatim>\<open>CRUDComplaint.update_status\<close> returns the pair \<^verbatim>\<open>(complaint, old_status)\<close>, or
  \<^verbatim>\<open>(None, None)\<close> when there is no such complaint.
\<close>

definition set_status :: "Complaint \<Rightarrow> int \<Rightarrow> ComplaintStatus \<Rightarrow> string option \<Rightarrow> int option \<Rightarrow> Complaint" where
  "set_status complaint now status resolution resolved_by_id =
     (let c1 = complaint\<lparr> c_status := status \<rparr>
      in if status = RESOLVED then
           (let c2 = c1\<lparr> c_resolved_at := Some now, c_resolved_by_id := resolved_by_id \<rparr>
            in if truthy_str resolution then c2\<lparr> c_resolution := resolution \<rparr> else c2)
         else c1)"

definition crud_complaint_update_status ::
  "db \<Rightarrow> int \<Rightarrow> int \<Rightarrow> ComplaintStatus \<Rightarrow> string option \<Rightarrow> int option
     \<Rightarrow> (Complaint \<times> ComplaintStatus) option \<times> db" where
  "crud_complaint_update_status d now complaint_id status resolution resolved_by_id =
     (case find (\<lambda>c. c_id c = complaint_id) (complaints d) of
        None \<Rightarrow> (None, d)
      | Some complaint \<Rightarrow>
          (let old_status = c_status complaint
           in (Some (set_status complaint now status resolution resolved_by_id, old_status),
               d\<lparr> complaints := update_first (\<lambda>c. c_id c = complaint_id)
                     (\<lambda>c. set_status c now status resolution resolved_by_id)
                     (complaints d) \<rparr>)))"

subsection \<open>Statistics\<close>








subsection \<open>Messages, activities, notifications\<close>

record MessageCreate =
  mc_is_internal :: bool
  mc_complaint_id :: int

definition crud_message_create :: "db \<Rightarrow> int \<Rightarrow> MessageCreate \<Rightarrow> int \<Rightarrow> Message \<times> db" where
  "crud_message_create d now obj_in sender_id =
     (let db_obj = \<lparr> m_id = message_seq d + 1, m_complaint_id = mc_complaint_id obj_in,
                      m_sender_id = sender_id, m_is_internal = mc_is_internal obj_in,
                      m_created_at = now \<rparr>
      in (db_obj, d\<lparr> messages := messages d @ [db_obj], message_seq := message_seq d + 1 \<rparr>))"

text \<open>
  \<^verbatim>\<open>CRUDMessage.get_by_complaint\<close>. The rows come ordered by creation time; among rows
  of equal time the order is the table's.
\<close>

definition crud_message_get_by_complaint :: "db \<Rightarrow> int \<Rightarrow> bool \<Rightarrow> Message list" where
  "crud_message_get_by_complaint d complaint_id include_internal =
     (let q0 = filter (\<lambda>m. m_complaint_id m = complaint_id) (messages d);
          q1 = (if \<not> include_internal then filter (\<lambda>m. m_is_internal m = False) q0 else q0)
      in sort_key m_created_at q1)"

definition crud_activity_log_activity ::
  "db \<Rightarrow> int \<Rightarrow> int \<Rightarrow> string \<Rightarrow> string option \<Rightarrow> string option \<Rightarrow> db" where
  "crud_activity_log_activity d complaint_id user_id action old_value new_value =
     d\<lparr> activities := activities d @
          [\<lparr> a_action = action, a_complaint_id = complaint_id, a_user_id = user_id,
             a_old_value = old_value, a_new_value = new_value \<rparr>] \<rparr>"

text \<open>
  \<^verbatim>\<open>CRUDNotification.mark_as_read\<close> returns the notification, or \<^verbatim>\<open>None\<close> when no row
  has both the given id and the given user.
\<close>

definition crud_notification_mark_as_read :: "db \<Rightarrow> int \<Rightarrow> int \<Rightarrow> Notification option \<times> db" where
  "crud_notification_mark_as_read d notification_id user_id =
     (case find (\<lambda>n. n_id n = notification_id \<and> n_user_id n = user_id) (notifications d) of
        None \<Rightarrow> (None, d)
      | Some notification \<Rightarrow>
          (Some (notification\<lparr> n_is_read := True \<rparr>),
           d\<lparr> notifications := update_first
                 (\<lambda>n. n_id n = notification_id \<and> n_user_id n = user_id)
                 (\<lambda>n. n\<lparr> n_is_read := True \<rparr>) (notifications d) \<rparr>))"

definition crud_notification_mark_all_as_read :: "db \<Rightarrow> int \<Rightarrow> db" where
  "crud_notification_mark_all_as_read d user_id =
     d\<lparr> notifications := map (\<lambda>n. if n_user_id n = user_id then n\<lparr> n_is_read := True \<rparr> else n)
                            (notifications d) \<rparr>"

section \<open>Notification service (app/services/notification_service.py)\<close>

text \<open>
  \<^verbatim>\<open>create_notification\<close> stores one row of type \<^verbatim>\<open>system\<close>, unread. Handing the row to
  the mail server changes nothing in the database and its failures are caught inside
  \<^verbatim>\<open>_send_email_notification\<close>; it is not modelled.
\<close>

definition create_notification :: "db \<Rightarrow> int \<Rightarrow> string \<Rightarrow> int option \<Rightarrow> db" where
  "create_notification d user_id title complaint_id =
     d\<lparr> notifications := notifications d @
          [\<lparr> n_id = notification_seq d + 1, n_title = title, n_user_id = user_id,
             n_complaint_id = complaint_id, n_is_read = False,
             n_notification_type = ''system'' \<rparr>],
        notification_seq := notification_seq d + 1 \<rparr>"

definition notify_complaint_status_change :: "db \<Rightarrow> Complaint \<Rightarrow> User \<Rightarrow> db" where
  "notify_complaint_status_change d complaint changed_by =
     (let d1 = (if c_complainant_id complaint \<noteq> u_id changed_by
                then create_notification d (c_complainant_id complaint)
                       ''Complaint Status Updated'' (Some (c_id complaint))
                else d)
      in foldl (\<lambda>acc assigned_user_id.
                  if assigned_user_id \<noteq> u_id changed_by
                  then create_notification acc assigned_user_id
                         ''Assigned Complaint Status Updated'' (Some (c_id complaint))
                  else acc)
           d1 (c_assigned_to complaint))"

section \<open>Request handlers (app/api/v1/routes.py, main.py)\<close>

text \<open>
  A handler takes the database, the user id carried by the request's verified token
  (\<open>token_user_id\<close>), the server clock where the handler reads it, and the validated
  request. It returns the response, an \<^verbatim>\<open>HTTPException\<close> or the handler's result, and
  the database it leaves behind. Decoding the token, hashing passwords, the mail server
  and the file store are outside the model.
\<close>

subsection \<open>The dependencies that identify the caller\<close>

definition get_current_user :: "db \<Rightarrow> int \<Rightarrow> http_error + User" where
  "get_current_user d token_user_id =
     (case find (\<lambda>u. u_id u = token_user_id) (users d) of
        None \<Rightarrow> Inl (HTTPException 401 ''Could not validate credentials'')
      | Some user \<Rightarrow>
          if \<not> u_is_active user then Inl (HTTPException 400 ''Inactive user'')
          else Inr user)"

definition get_current_active_user :: "db \<Rightarrow> int \<Rightarrow> http_error + User" where
  "get_current_active_user d token_user_id =
     (case get_current_user d token_user_id of
        Inl e \<Rightarrow> Inl e
      | Inr current_user \<Rightarrow>
          if \<not> u_is_active current_user then Inl (HTTPException 400 ''Inactive user'')
          else Inr current_user)"

definition get_admin_user :: "db \<Rightarrow> int \<Rightarrow> http_error + User" where
  "get_admin_user d token_user_id =
     (case get_current_active_user d token_user_id of
        Inl e \<Rightarrow> Inl e
      | Inr current_user \<Rightarrow>
          if u_role current_user \<notin> set [ADMIN, STAFF, SUPER_ADMIN]
          then Inl (HTTPException 403 ''Admin privileges required'')
          else Inr current_user)"

subsection \<open>Users\<close>

definition register :: "db \<Rightarrow> UserCreate \<Rightarrow> (http_error + int) \<times> db" where
  "register d user_data =
     (if crud_user_get_by_email d (uc_email user_data) \<noteq> None
      then (Inl (HTTPException 400 ''Email already registered''), d)
      else if crud_user_get_by_username d (uc_username user_data) \<noteq> None
      then (Inl (HTTPException 400 ''Username already taken''), d)
      else if crud_university_get d (uc_university_id user_data) = None
      then (Inl (HTTPException 400 ''University not found''), d)
      else if truthy_int (uc_department_id user_data)
              \<and> (case uc_department_id user_data of None \<Rightarrow> False
                  | Some dep \<Rightarrow> crud_department_get d dep = None)
      then (Inl (HTTPException 400 ''Department not found''), d)
      else (let (user, d1) = crud_user_create d user_data in (Inr (u_id user), d1)))"

definition update_user :: "db \<Rightarrow> int \<Rightarrow> int \<Rightarrow> UserUpdate \<Rightarrow> (http_error + User) \<times> db" where
  "update_user d token_user_id user_id user_update =
     (case get_admin_user d token_user_id of
        Inl e \<Rightarrow> (Inl e, d)
      | Inr current_user \<Rightarrow>
          (case crud_user_get d user_id of
             None \<Rightarrow> (Inl (HTTPException 404 ''User not found''), d)
           | Some user \<Rightarrow>
               if u_role current_user \<notin> set [SUPER_ADMIN, ADMIN] \<and> u_id current_user \<noteq> user_id
               then (Inl (HTTPException 403 ''Permission denied''), d)
               else (let (updated_user, d1) = crud_user_update d user user_update
                     in (Inr updated_user, d1))))"

subsection \<open>Complaints\<close>

definition create_complaint :: "db \<Rightarrow> int \<Rightarrow> int \<Rightarrow> ComplaintCreate \<Rightarrow> (http_error + Complaint) \<times> db" where
  "create_complaint d token_user_id now complaint_data =
     (case get_current_active_user d token_user_id of
        Inl e \<Rightarrow> (Inl e, d)
      | Inr current_user \<Rightarrow>
          if cc_university_id complaint_data \<noteq> u_university_id current_user
          then (Inl (HTTPException 403 ''Cannot create complaint for different university''), d)
          else
            (let (complaint, d1) = crud_complaint_create d now complaint_data (u_id current_user);
                 d2 = crud_activity_log_activity d1 (c_id complaint) (u_id current_user)
                        ''complaint_created'' None None;
                 admins = crud_user_get_admins_by_university d2 (u_university_id current_user);
                 d3 = foldl (\<lambda>acc admin. create_notification acc (u_id admin)
                               ''New Complaint Submitted'' (Some (c_id complaint))) d2 admins
             in (Inr complaint, d3)))"

text \<open>
  \<^verbatim>\<open>update_complaint\<close>. The activity log receives one row for a changed status and one
  for a changed priority; the enumeration members are stored by their string values.
\<close>

definition log_update_changes :: "db \<Rightarrow> int \<Rightarrow> int \<Rightarrow> ComplaintStatus \<Rightarrow> ComplaintPriority \<Rightarrow> ComplaintUpdate \<Rightarrow> db" where
  "log_update_changes d complaint_id user_id old_status old_priority complaint_update =
     (let d1 = (case cu_status complaint_update of
                  None \<Rightarrow> d
                | Some new_status \<Rightarrow>
                    if old_status \<noteq> new_status
                    then crud_activity_log_activity d complaint_id user_id ''status_changed''
                           (Some (status_value old_status)) (Some (status_value new_status))
                    else d)
      in (case cu_priority complaint_update of
            None \<Rightarrow> d1
          | Some new_priority \<Rightarrow>
              if old_priority \<noteq> new_priority
              then crud_activity_log_activity d1 complaint_id user_id ''priority_changed''
                     (Some (priority_value old_priority)) (Some (priority_value new_priority))
              else d1))"

definition update_complaint :: "db \<Rightarrow> int \<Rightarrow> int \<Rightarrow> ComplaintUpdate \<Rightarrow> (http_error + Complaint) \<times> db" where
  "update_complaint d token_user_id complaint_id complaint_update =
     (case get_current_active_user d token_user_id of
        Inl e \<Rightarrow> (Inl e, d)
      | Inr current_user \<Rightarrow>
          (case crud_complaint_get d complaint_id of
             None \<Rightarrow> (Inl (HTTPException 404 ''Complaint not found''), d)
           | Some complaint \<Rightarrow>
               if \<not> can_access_complaint current_user complaint
               then (Inl (HTTPException 403 ''Access denied''), d)
               else if u_role current_user = STUDENT
                       \<and> (c_complainant_id complaint \<noteq> u_id current_user
                            \<or> c_status complaint = RESOLVED)
               then (Inl (HTTPException 403 ''Cannot update this complaint''), d)
               else
                 (let old_status = c_status complaint;
                      old_priority = c_priority complaint;
                      (updated_complaint, d1) = crud_complaint_update d complaint complaint_update;
                      d2 = log_update_changes d1 complaint_id (u_id current_user)
                             old_status old_priority complaint_update
                  in (Inr updated_complaint, d2))))"

definition assign_complaint :: "db \<Rightarrow> int \<Rightarrow> int \<Rightarrow> int list \<Rightarrow> (http_error + unit) \<times> db" where
  "assign_complaint d token_user_id complaint_id assigned_to_ids =
     (case get_admin_user d token_user_id of
        Inl e \<Rightarrow> (Inl e, d)
      | Inr current_user \<Rightarrow>
          (case crud_complaint_get d complaint_id of
             None \<Rightarrow> (Inl (HTTPException 404 ''Complaint not found''), d)
           | Some complaint \<Rightarrow>
               if u_role current_user \<noteq> SUPER_ADMIN
                  \<and> c_university_id complaint \<noteq> u_university_id current_user
               then (Inl (HTTPException 403 ''Access denied''), d)
               else
                 (let (updated_complaint, d1) =
                        crud_complaint_assign_users d complaint_id assigned_to_ids;
                      d2 = crud_activity_log_activity d1 complaint_id (u_id current_user)
                             ''complaint_assigned'' None None;
                      d3 = foldl (\<lambda>acc user_id. create_notification acc user_id
                                    ''Complaint Assigned'' (Some complaint_id)) d2 assigned_to_ids
                  in (Inr (), d3))))"

definition update_complaint_status ::
  "db \<Rightarrow> int \<Rightarrow> int \<Rightarrow> int \<Rightarrow> ComplaintStatusUpdate \<Rightarrow> (http_error + unit) \<times> db" where
  "update_complaint_status d token_user_id now complaint_id status_update =
     (case get_admin_user d token_user_id of
        Inl e \<Rightarrow> (Inl e, d)
      | Inr current_user \<Rightarrow>
          (case crud_complaint_update_status d now complaint_id (su_status status_update)
                  (su_resolution status_update)
                  (if su_status status_update = RESOLVED then Some (u_id current_user) else None) of
             (None, d1) \<Rightarrow> (Inl (HTTPException 404 ''Complaint not found''), d1)
           | (Some (complaint, old_status), d1) \<Rightarrow>
               (let d2 = crud_activity_log_activity d1 complaint_id (u_id current_user)
                           ''status_updated'' (Some (status_value old_status))
                           (Some (status_value (su_status status_update)));
                    d3 = create_notification d2 (c_complainant_id complaint)
                           ''Complaint Status Updated'' (Some complaint_id)
                in (Inr (), d3))))"

subsection \<open>File upload\<close>

text \<open>
  \<^verbatim>\<open>file.filename.split('.')[-1].lower()\<close>: the text after the last dot (the whole name
  when it has none), with the letters A to Z in lower case.
\<close>

definition lower_char :: "char \<Rightarrow> char" where
  "lower_char c =
     (let n = (of_char c :: nat) in if 65 \<le> n \<and> n \<le> 90 then char_of (n + 32) else c)"

definition file_extension :: "string \<Rightarrow> string" where
  "file_extension filename =
     map lower_char (rev (takeWhile (\<lambda>c. c \<noteq> CHR ''.'') (rev filename)))"

definition allowed_extensions :: "string list" where
  "allowed_extensions = [''pdf'', ''jpg'', ''jpeg'', ''png'', ''doc'', ''docx'', ''txt'']"

record UploadFile =
  uf_filename :: string
  uf_size :: int

text \<open>
  \<^verbatim>\<open>AttachmentCreate\<close> has no field for the uploader. \<^verbatim>\<open>CRUDAttachment\<close> inherits
  \<^verbatim>\<open>CRUDBase.create\<close>, which builds the row from the fields of the schema and commits
  it: the row has no \<^verbatim>\<open>uploaded_by_id\<close>, and the commit raises for the missing value
  (the result \<open>None\<close>).
\<close>

record AttachmentCreate =
  ac_original_filename :: string
  ac_file_size :: int
  ac_complaint_id :: int

definition crud_attachment_create :: "db \<Rightarrow> AttachmentCreate \<Rightarrow> (Attachment \<times> db) option" where
  "crud_attachment_create d obj_in =
     (let db_obj = \<lparr> at_id = attachment_seq d + 1,
                      at_original_filename = ac_original_filename obj_in,
                      at_file_size = ac_file_size obj_in,
                      at_complaint_id = ac_complaint_id obj_in,
                      at_uploaded_by_id = None \<rparr>
      in if at_uploaded_by_id db_obj = None then None
         else Some (db_obj, d\<lparr> attachments := attachments d @ [db_obj],
                                attachment_seq := attachment_seq d + 1 \<rparr>))"

text \<open>
  The \<^verbatim>\<open>try\<close> block of \<^verbatim>\<open>upload_file\<close> writes the file to the store (whether that
  goes through is the parameter \<open>saved\<close>), creates the attachment row, then sets the
  uploader on it and commits, and logs the activity; any exception in the block becomes
  the response 500.
\<close>

definition upload_file :: "db \<Rightarrow> int \<Rightarrow> int \<Rightarrow> UploadFile \<Rightarrow> bool \<Rightarrow> (http_error + int) \<times> db" where
  "upload_file d token_user_id complaint_id file saved =
     (case get_current_active_user d token_user_id of
        Inl e \<Rightarrow> (Inl e, d)
      | Inr current_user \<Rightarrow>
          (case crud_complaint_get d complaint_id of
             None \<Rightarrow> (Inl (HTTPException 404 ''Complaint not found''), d)
           | Some complaint \<Rightarrow>
               if \<not> can_access_complaint current_user complaint
               then (Inl (HTTPException 403 ''Access denied''), d)
               else if file_extension (uf_filename file) \<notin> set allowed_extensions
               then (Inl (HTTPException 400
                       ''File type not allowed. Allowed types: pdf, jpg, jpeg, png, doc, docx, txt''), d)
               else if uf_size file > 10 * 1024 * 1024
               then (Inl (HTTPException 400 ''File size too large. Maximum size is 10MB''), d)
               else if \<not> saved
               then (Inl (HTTPException 500 ''Failed to upload file''), d)
               else
                 (case crud_attachment_create d
                         \<lparr> ac_original_filename = uf_filename file,
                           ac_file_size = uf_size file,
                           ac_complaint_id = complaint_id \<rparr> of
                    None \<Rightarrow> (Inl (HTTPException 500 ''Failed to upload file''), d)
                  | Some (attachment, d1) \<Rightarrow>
                      (let d2 = d1\<lparr> attachments := update_first
                                    (\<lambda>a. at_id a = at_id attachment)
                                    (\<lambda>a. a\<lparr> at_uploaded_by_id := Some (u_id current_user) \<rparr>)
                                    (attachments d1) \<rparr>;
                           d3 = crud_activity_log_activity d2 complaint_id (u_id current_user)
                                  ''file_uploaded'' None None
                       in (Inr (at_id attachment), d3)))))"

subsection \<open>Messages\<close>

text \<open>
  \<^verbatim>\<open>create_message\<close>. The recipients \<^verbatim>\<open>list(set(notify_users))\<close> are the complainant
  and the assigned users without repetition, less the sender; the order in which a
  Python set is walked is not fixed, \<open>remdups\<close> picks one.
\<close>

definition create_message :: "db \<Rightarrow> int \<Rightarrow> int \<Rightarrow> int \<Rightarrow> MessageCreate \<Rightarrow> (http_error + Message) \<times> db" where
  "create_message d token_user_id now complaint_id message_data =
     (case get_current_active_user d token_user_id of
        Inl e \<Rightarrow> (Inl e, d)
      | Inr current_user \<Rightarrow>
          (case crud_complaint_get d complaint_id of
             None \<Rightarrow> (Inl (HTTPException 404 ''Complaint not found''), d)
           | Some complaint \<Rightarrow>
               if \<not> can_access_complaint current_user complaint
               then (Inl (HTTPException 403 ''Access denied''), d)
               else
                 (let (message, d1) = crud_message_create d now message_data (u_id current_user);
                      d2 = crud_activity_log_activity d1 complaint_id (u_id current_user)
                             ''message_added'' None None;
                      notify_users = filter (\<lambda>uid. uid \<noteq> u_id current_user)
                                       (remdups (c_complainant_id complaint # c_assigned_to complaint));
                      d3 = foldl (\<lambda>acc user_id. create_notification acc user_id
                                    ''New Message'' (Some complaint_id)) d2 notify_users
                  in (Inr message, d3))))"

definition get_messages :: "db \<Rightarrow> int \<Rightarrow> int \<Rightarrow> bool \<Rightarrow> http_error + Message list" where
  "get_messages d token_user_id complaint_id include_internal =
     (case get_current_active_user d token_user_id of
        Inl e \<Rightarrow> Inl e
      | Inr current_user \<Rightarrow>
          (case crud_complaint_get d complaint_id of
             None \<Rightarrow> Inl (HTTPException 404 ''Complaint not found'')
           | Some complaint \<Rightarrow>
               if \<not> can_access_complaint current_user complaint
               then Inl (HTTPException 403 ''Access denied'')
               else
                 (let include_internal' =
                        (if include_internal
                            \<and> u_role current_user \<notin> set [ADMIN, STAFF, SUPER_ADMIN]
                         then False else include_internal)
                  in Inr (crud_message_get_by_complaint d complaint_id include_internal'))))"

subsection \<open>Notifications\<close>

definition mark_notification_read :: "db \<Rightarrow> int \<Rightarrow> int \<Rightarrow> (http_error + unit) \<times> db" where
  "mark_notification_read d token_user_id notification_id =
     (case get_current_active_user d token_user_id of
        Inl e \<Rightarrow> (Inl e, d)
      | Inr current_user \<Rightarrow>
          (case crud_notification_mark_as_read d notification_id (u_id current_user) of
             (None, d1) \<Rightarrow> (Inl (HTTPException 404 ''Notification not found''), d1)
           | (Some notification, d1) \<Rightarrow> (Inr (), d1)))"

definition mark_all_notifications_read :: "db \<Rightarrow> int \<Rightarrow> (http_error + unit) \<times> db" where
  "mark_all_notifications_read d token_user_id =
     (case get_current_active_user d token_user_id of
        Inl e \<Rightarrow> (Inl e, d)
      | Inr current_user \<Rightarrow> (Inr (), crud_notification_mark_all_as_read d (u_id current_user)))"

subsection \<open>Default data (main.py)\<close>

text \<open>
  \<^verbatim>\<open>create_default_data\<close> does nothing when a university exists; otherwise it creates
  the demo university, a super admin and a student. \<^verbatim>\<open>reset_demo_data\<close> empties every
  table and creates the default data again; the sequences keep counting.
\<close>

definition create_default_data :: "db \<Rightarrow> db" where
  "create_default_data d =
     (if universities d \<noteq> [] then d
      else
        (let university = \<lparr> uni_id = university_seq d + 1, uni_code = ''DEMO'' \<rparr>;
             d1 = d\<lparr> universities := universities d @ [university],
                     university_seq := university_seq d + 1 \<rparr>;
             (admin_user, d2) = crud_user_create d1
                \<lparr> uc_email = ''admin@demo.edu'', uc_username = ''admin'',
                  uc_role = SUPER_ADMIN, uc_university_id = uni_id university,
                  uc_department_id = None \<rparr>;
             (student_user, d3) = crud_user_create d2
                \<lparr> uc_email = ''student@demo.edu'', uc_username = ''student'',
                  uc_role = STUDENT, uc_university_id = uni_id university,
                  uc_department_id = None \<rparr>
         in d3))"

definition reset_demo_data :: "db \<Rightarrow> db" where
  "reset_demo_data d =
     create_default_data
       (d\<lparr> activities := [], messages := [], attachments := [], notifications := [],
           complaints := [], users := [], departments := [], universities := [] \<rparr>)"

definition empty_db :: db where
  "empty_db = \<lparr> universities = [], departments = [], users = [], complaints = [],
                attachments = [], messages = [], activities = [], notifications = [],
                university_seq = 0, user_seq = 0, complaint_seq = 0, attachment_seq = 0,
                message_seq = 0, notification_seq = 0 \<rparr>"

definition initial_db :: db where
  "initial_db = create_default_data empty_db"

subsection \<open>Reading a complaint\<close>

text \<open>
  \<^verbatim>\<open>get_complaint\<close> answers with the schema \<^verbatim>\<open>ComplaintDetail\<close>, read from the
  object that \<^verbatim>\<open>get_with_details\<close> loads together with its relationships: the
  attachments, messages and activities of the complaint are the rows that refer to it.
  The related users, university and department are left out.
\<close>

record ComplaintDetail =
  cd_complaint :: Complaint
  cd_attachments :: "Attachment list"
  cd_messages :: "Message list"
  cd_activities :: "Activity list"

definition crud_complaint_get_with_details :: "db \<Rightarrow> int \<Rightarrow> ComplaintDetail option" where
  "crud_complaint_get_with_details d complaint_id =
     (case find (\<lambda>c. c_id c = complaint_id) (complaints d) of
        None \<Rightarrow> None
      | Some complaint \<Rightarrow>
          Some \<lparr> cd_complaint = complaint,
                 cd_attachments = filter (\<lambda>a. at_complaint_id a = c_id complaint) (attachments d),
                 cd_messages = filter (\<lambda>m. m_complaint_id m = c_id complaint) (messages d),
                 cd_activities = filter (\<lambda>a. a_complaint_id a = c_id complaint) (activities d) \<rparr>)"

definition get_complaint :: "db \<Rightarrow> int \<Rightarrow> int \<Rightarrow> http_error + ComplaintDetail" where
  "get_complaint d token_user_id complaint_id =
     (case get_current_active_user d token_user_id of
        Inl e \<Rightarrow> Inl e
      | Inr current_user \<Rightarrow>
          (case crud_complaint_get_with_details d complaint_id of
             None \<Rightarrow> Inl (HTTPException 404 ''Complaint not found'')
           | Some complaint \<Rightarrow>
               if \<not> can_access_complaint current_user (cd_complaint complaint)
               then Inl (HTTPException 403 ''Access denied'')
               else Inr complaint))"

subsection \<open>The system as a transition function\<close>

text \<open>
  The requests that write to the database, and the database each leaves behind.
\<close>

datatype request =
    Register UserCreate
  | UpdateUser int int UserUpdate
  | CreateComplaint int int ComplaintCreate
  | UpdateComplaint int int ComplaintUpdate
  | AssignComplaint int int "int list"
  | UpdateComplaintStatus int int int ComplaintStatusUpdate
  | UploadFileTo int int UploadFile bool
  | CreateMessage int int int MessageCreate
  | MarkNotificationRead int int
  | MarkAllNotificationsRead int
  | ResetDemoData

fun step :: "db \<Rightarrow> request \<Rightarrow> db" where
  "step d (Register user_data) = snd (register d user_data)"
| "step d (UpdateUser tok user_id user_update) = snd (update_user d tok user_id user_update)"
| "step d (CreateComplaint tok now complaint_data) = snd (create_complaint d tok now complaint_data)"
| "step d (UpdateComplaint tok complaint_id complaint_update) =
     snd (update_complaint d tok complaint_id complaint_update)"
| "step d (AssignComplaint tok complaint_id ids) = snd (assign_complaint d tok complaint_id ids)"
| "step d (UpdateComplaintStatus tok now complaint_id status_update) =
     snd (update_complaint_status d tok now complaint_id status_update)"
| "step d (UploadFileTo tok complaint_id file saved) = snd (upload_file d tok complaint_id file saved)"
| "step d (CreateMessage tok now complaint_id message_data) =
     snd (create_message d tok now complaint_id message_data)"
| "step d (MarkNotificationRead tok notification_id) = snd (mark_notification_read d tok notification_id)"
| "step d (MarkAllNotificationsRead tok) = snd (mark_all_notifications_read d tok)"
| "step d ResetDemoData = reset_demo_data d"

definition run :: "db \<Rightarrow> request list \<Rightarrow> db" where
  "run d requests = foldl step d requests"

section \<open>Tenant consistency\<close>

text \<open>
  The keys that tie a complaint to its complainant: for a user the pair of id and
  university, for a complaint the pair of complainant and university. A database is
  consistent when user ids are unique and were given out by the sequence, and every
  complaint's pair is the pair of a user.
\<close>

definition user_keys :: "db \<Rightarrow> (int \<times> int) list" where
  "user_keys d = map (\<lambda>u. (u_id u, u_university_id u)) (users d)"

definition complaint_keys :: "db \<Rightarrow> (int \<times> int) list" where
  "complaint_keys d = map (\<lambda>c. (c_complainant_id c, c_university_id c)) (complaints d)"

definition keys_of :: "db \<Rightarrow> (int \<times> int) list \<times> (int \<times> int) list \<times> int" where
  "keys_of d = (user_keys d, complaint_keys d, user_seq d)"

definition tenant_consistent :: "db \<Rightarrow> bool" where
  "tenant_consistent d =
     (distinct (map fst (user_keys d))
      \<and> list_all (\<lambda>k. fst k \<le> user_seq d) (user_keys d)
      \<and> list_all (\<lambda>k. k \<in> set (user_keys d)) (complaint_keys d))"

section \<open>Example data\<close>

definition ex_admin :: User where
  "ex_admin = \<lparr> u_id = 1, u_email = ''admin@demo.edu'', u_username = ''admin'', u_role = ADMIN,
                u_department_id = None, u_university_id = 1, u_is_active = True \<rparr>"

definition ex_student :: User where
  "ex_student = \<lparr> u_id = 2, u_email = ''student@demo.edu'', u_username = ''student'',
                  u_role = STUDENT, u_department_id = None, u_university_id = 1,
                  u_is_active = True \<rparr>"

definition ex_staff :: User where
  "ex_staff = \<lparr> u_id = 3, u_email = ''staff@demo.edu'', u_username = ''staff'', u_role = STAFF,
                u_department_id = None, u_university_id = 1, u_is_active = True \<rparr>"

definition ex_super_admin :: User where
  "ex_super_admin = \<lparr> u_id = 4, u_email = ''root@other.edu'', u_username = ''root'',
                      u_role = SUPER_ADMIN, u_department_id = None, u_university_id = 2,
                      u_is_active = True \<rparr>"

definition ex_foreign_admin :: User where
  "ex_foreign_admin = \<lparr> u_id = 5, u_email = ''admin@other.edu'', u_username = ''admin2'',
                        u_role = ADMIN, u_department_id = None, u_university_id = 2,
                        u_is_active = True \<rparr>"

definition ex_other_student :: User where
  "ex_other_student = \<lparr> u_id = 6, u_email = ''peer@demo.edu'', u_username = ''peer'',
                        u_role = STUDENT, u_department_id = None, u_university_id = 1,
                        u_is_active = True \<rparr>"

definition ex_complaint :: Complaint where
  "ex_complaint = \<lparr> c_id = 1, c_category = ACADEMIC, c_priority = MEDIUM, c_status = SUBMITTED,
                    c_complainant_id = 2, c_university_id = 1, c_department_id = None,
                    c_resolution = None, c_resolved_at = None, c_resolved_by_id = None,
                    c_created_at = Some 1000, c_due_date = None,
                    c_satisfaction_rating = None, c_assigned_to = [3] \<rparr>"

definition ex_db :: db where
  "ex_db = \<lparr> universities = [\<lparr> uni_id = 1, uni_code = ''DEMO'' \<rparr>,
                              \<lparr> uni_id = 2, uni_code = ''OTHER'' \<rparr>],
             departments = [],
             users = [ex_admin, ex_student, ex_staff, ex_super_admin, ex_foreign_admin,
                      ex_other_student],
             complaints = [ex_complaint],
             attachments = [],
             messages = [\<lparr> m_id = 1, m_complaint_id = 1, m_sender_id = 2, m_is_internal = False,
                           m_created_at = 1100 \<rparr>,
                         \<lparr> m_id = 2, m_complaint_id = 1, m_sender_id = 1, m_is_internal = True,
                           m_created_at = 1200 \<rparr>],
             activities = [],
             notifications = [\<lparr> n_id = 1, n_title = ''Complaint Assigned'', n_user_id = 3,
                                n_complaint_id = Some 1, n_is_read = False,
                                n_notification_type = ''system'' \<rparr>],
             university_seq = 2, user_seq = 6, complaint_seq = 1, attachment_seq = 0,
             message_seq = 2, notification_seq = 1 \<rparr>"

definition ex_complaint_data :: "int \<Rightarrow> ComplaintCreate" where
  "ex_complaint_data university_id =
     \<lparr> cc_category = HOUSING, cc_priority = LOW, cc_department_id = None,
       cc_university_id = university_id \<rparr>"

text \<open>The complaint that this request creates at time 5000 for user 2, under a given id.\<close>

definition ex_new_complaint :: "int \<Rightarrow> Complaint" where
  "ex_new_complaint ident =
     \<lparr> c_id = ident, c_category = HOUSING, c_priority = LOW, c_status = SUBMITTED,
       c_complainant_id = 2, c_university_id = 1, c_department_id = None,
       c_resolution = None, c_resolved_at = None, c_resolved_by_id = None,
       c_created_at = Some 5000, c_due_date = None,
       c_satisfaction_rating = None, c_assigned_to = [] \<rparr>"

text \<open>The same database with the complaint in another status.\<close>

definition ex_db_with_status :: "ComplaintStatus \<Rightarrow> db" where
  "ex_db_with_status status = ex_db\<lparr> complaints := [ex_complaint\<lparr> c_status := status \<rparr>] \<rparr>"

definition ex_reopen :: ComplaintUpdate where
  "ex_reopen = \<lparr> cu_category = None, cu_priority = None, cu_status = Some IN_PROGRESS,
                 cu_department_id = None, cu_resolution = None \<rparr>"

definition ex_resolved_complaint :: Complaint where
  "ex_resolved_complaint =
     ex_complaint\<lparr> c_status := RESOLVED, c_resolution := Some ''fixed'',
                   c_resolved_at := Some 2000, c_resolved_by_id := Some 3 \<rparr>"

definition ex_resolved_db :: db where
  "ex_resolved_db = ex_db\<lparr> complaints := [ex_resolved_complaint] \<rparr>"

definition ex_resolve :: ComplaintStatusUpdate where
  "ex_resolve = \<lparr> su_status = RESOLVED, su_resolution = Some ''fixed'' \<rparr>"

definition ex_review :: ComplaintStatusUpdate where
  "ex_review = \<lparr> su_status = UNDER_REVIEW, su_resolution = Some ''looking'' \<rparr>"

definition ex_escalate :: ComplaintUpdate where
  "ex_escalate = \<lparr> cu_category = None, cu_priority = Some URGENT, cu_status = Some ESCALATED,
                   cu_department_id = None, cu_resolution = None \<rparr>"

definition ex_recategorise :: ComplaintUpdate where
  "ex_recategorise = \<lparr> cu_category = Some SAFETY, cu_priority = None, cu_status = None,
                       cu_department_id = None, cu_resolution = None \<rparr>"

definition ex_message_data :: MessageCreate where
  "ex_message_data = \<lparr> mc_is_internal = False, mc_complaint_id = 1 \<rparr>"

definition ex_file :: UploadFile where
  "ex_file = \<lparr> uf_filename = ''timetable.v2.PDF'', uf_size = 52000 \<rparr>"

definition ex_public_message :: Message where
  "ex_public_message = \<lparr> m_id = 1, m_complaint_id = 1, m_sender_id = 2, m_is_internal = False,
                          m_created_at = 1100 \<rparr>"

definition ex_internal_message :: Message where
  "ex_internal_message = \<lparr> m_id = 2, m_complaint_id = 1, m_sender_id = 1, m_is_internal = True,
                            m_created_at = 1200 \<rparr>"

definition ex_notification :: Notification where
  "ex_notification = \<lparr> n_id = 1, n_title = ''Complaint Assigned'', n_user_id = 3,
                        n_complaint_id = Some 1, n_is_read = False,
                        n_notification_type = ''system'' \<rparr>"

section \<open>Auxiliary facts about the queries\<close>

lemma map_update_first: "(\<And>x. g (f x) = g x) \<Longrightarrow> map g (update_first p f xs) = map g xs"
  by (induction xs) auto

lemma foldl_keeps: "(\<And>acc x. g (h acc x) = g acc) \<Longrightarrow> g (foldl h d xs) = g d"
  by (induction xs arbitrary: d) auto

lemma find_Some_set: "find p xs = Some x \<Longrightarrow> x \<in> set xs \<and> p x"
  by (induction xs) (auto split: if_splits)

lemma create_notification_frame:
  "users (create_notification d uid t c) = users d"
  "complaints (create_notification d uid t c) = complaints d"
  "user_seq (create_notification d uid t c) = user_seq d"
  "activities (create_notification d uid t c) = activities d"
  by (simp_all add: create_notification_def)

lemma log_activity_frame:
  "users (crud_activity_log_activity d cid uid a ov nv) = users d"
  "complaints (crud_activity_log_activity d cid uid a ov nv) = complaints d"
  "user_seq (crud_activity_log_activity d cid uid a ov nv) = user_seq d"
  "notifications (crud_activity_log_activity d cid uid a ov nv) = notifications d"
  "notification_seq (crud_activity_log_activity d cid uid a ov nv) = notification_seq d"
  by (simp_all add: crud_activity_log_activity_def)

lemma tenant_consistent_keys: "keys_of d' = keys_of d \<Longrightarrow> tenant_consistent d' = tenant_consistent d"
  by (simp add: keys_of_def tenant_consistent_def)

lemma keys_of_create_notification [simp]: "keys_of (create_notification d uid t c) = keys_of d"
  by (simp add: keys_of_def user_keys_def complaint_keys_def create_notification_frame)

lemma keys_of_log_activity [simp]: "keys_of (crud_activity_log_activity d cid uid a ov nv) = keys_of d"
  by (simp add: keys_of_def user_keys_def complaint_keys_def log_activity_frame)

lemma keys_of_foldl_notify [simp]:
  "keys_of (foldl (\<lambda>acc x. create_notification acc (f x) t c) d xs) = keys_of d"
  by (rule foldl_keeps) simp

lemma apply_user_update_key:
  "u_id (apply_user_update u obj) = u_id u" "u_university_id (apply_user_update u obj) = u_university_id u"
  by (simp_all add: apply_user_update_def Let_def split: option.splits)

lemma apply_complaint_update_key:
  "c_complainant_id (apply_complaint_update c obj) = c_complainant_id c"
  "c_university_id (apply_complaint_update c obj) = c_university_id c"
  by (simp_all add: apply_complaint_update_def Let_def split: option.splits)

lemma set_status_key:
  "c_complainant_id (set_status c now st r rb) = c_complainant_id c"
  "c_university_id (set_status c now st r rb) = c_university_id c"
  by (simp_all add: set_status_def Let_def)

lemma keys_of_update_user: "keys_of (snd (update_user d tok uid upd)) = keys_of d"
  by (simp add: update_user_def crud_user_update_def keys_of_def user_keys_def complaint_keys_def
        map_update_first apply_user_update_key split: sum.splits option.splits)

lemma keys_of_update_complaint: "keys_of (snd (update_complaint d tok cid upd)) = keys_of d"
  by (simp add: update_complaint_def crud_complaint_update_def log_update_changes_def Let_def
        keys_of_def user_keys_def complaint_keys_def log_activity_frame
        map_update_first apply_complaint_update_key split: sum.splits option.splits)

lemma keys_of_assign_complaint: "keys_of (snd (assign_complaint d tok cid ids)) = keys_of d"
proof -
  have "keys_of (snd (crud_complaint_assign_users d cid ids)) = keys_of d"
    by (simp add: crud_complaint_assign_users_def Let_def keys_of_def user_keys_def
          complaint_keys_def map_update_first split: option.splits)
  then show ?thesis
    by (simp add: assign_complaint_def Let_def split_beta split: sum.splits option.splits)
qed

lemma keys_of_update_complaint_status:
  "keys_of (snd (update_complaint_status d tok now cid su)) = keys_of d"
proof -
  have "keys_of (snd (crud_complaint_update_status d now cid st r rb)) = keys_of d" for st r rb
    by (simp add: crud_complaint_update_status_def Let_def keys_of_def user_keys_def
          complaint_keys_def map_update_first set_status_key split: option.splits)
  then show ?thesis
    by (auto simp add: update_complaint_status_def Let_def split: sum.splits option.splits prod.splits)
       (metis snd_conv)+
qed

lemma get_current_active_user_in_users:
  "get_current_active_user d tok = Inr u \<Longrightarrow> u \<in> set (users d) \<and> u_id u = tok"
  by (auto simp: get_current_active_user_def get_current_user_def
        split: option.splits if_splits sum.splits dest: find_Some_set)

lemma keys_of_crud_complaint_create:
  "keys_of (snd (crud_complaint_create d now cd uid)) =
     (user_keys d, complaint_keys d @ [(uid, cc_university_id cd)], user_seq d)"
  by (simp add: crud_complaint_create_def Let_def keys_of_def user_keys_def complaint_keys_def)

lemma tenant_consistent_by_keys:
  "tenant_consistent d =
     (case keys_of d of (uk, ck, s) \<Rightarrow>
        distinct (map fst uk) \<and> list_all (\<lambda>k. fst k \<le> s) uk \<and> list_all (\<lambda>k. k \<in> set uk) ck)"
  by (simp add: tenant_consistent_def keys_of_def)

lemma keys_of_create_complaint:
  "get_current_active_user d tok = Inr u \<Longrightarrow> cc_university_id cd = u_university_id u \<Longrightarrow>
   keys_of (snd (create_complaint d tok now cd)) =
     (user_keys d, complaint_keys d @ [(u_id u, u_university_id u)], user_seq d)"
  by (simp add: create_complaint_def Let_def split_beta keys_of_crud_complaint_create)


lemma tenant_consistent_add_complaint:
  assumes "tenant_consistent d"
    and "keys_of d' = (user_keys d, complaint_keys d @ [k], user_seq d)"
    and "k \<in> set (user_keys d)"
  shows "tenant_consistent d'"
  using assms by (simp add: tenant_consistent_by_keys keys_of_def)

lemma tenant_consistent_add_user:
  assumes "tenant_consistent d"
    and "keys_of d' = (user_keys d @ [(user_seq d + 1, x)], complaint_keys d, user_seq d + 1)"
  shows "tenant_consistent d'"
proof -
  have fresh: "user_seq d + 1 \<notin> fst ` set (user_keys d)"
    using assms(1) by (force simp: tenant_consistent_def list_all_iff)
  have le: "list_all (\<lambda>k. fst k \<le> user_seq d + 1) (user_keys d)"
    using assms(1) by (force simp: tenant_consistent_def list_all_iff)
  show ?thesis
    using assms fresh le by (simp add: tenant_consistent_by_keys keys_of_def list_all_iff)
qed

lemma keys_of_crud_user_create:
  "keys_of (snd (crud_user_create d ud)) =
     (user_keys d @ [(user_seq d + 1, uc_university_id ud)], complaint_keys d, user_seq d + 1)"
  by (simp add: crud_user_create_def Let_def keys_of_def user_keys_def complaint_keys_def)

lemma tenant_consistent_register:
  assumes "tenant_consistent d"
  shows "tenant_consistent (snd (register d user_data))"
proof -
  have "tenant_consistent (snd (crud_user_create d user_data))"
    by (rule tenant_consistent_add_user[OF assms keys_of_crud_user_create])
  then show ?thesis
    using assms by (simp add: register_def split_beta)
qed

lemma tenant_consistent_create_complaint:
  assumes "tenant_consistent d"
  shows "tenant_consistent (snd (create_complaint d tok now cd))"
proof (cases "get_current_active_user d tok")
  case (Inl e)
  then show ?thesis using assms by (simp add: create_complaint_def)
next
  case (Inr u)
  show ?thesis
  proof (cases "cc_university_id cd = u_university_id u")
    case False
    then show ?thesis using assms Inr by (simp add: create_complaint_def)
  next
    case True
    have mem: "(u_id u, u_university_id u) \<in> set (user_keys d)"
      using get_current_active_user_in_users[OF Inr] by (force simp: user_keys_def)
    show ?thesis
      by (rule tenant_consistent_add_complaint[OF assms keys_of_create_complaint[OF Inr True] mem])
  qed
qed

lemma crud_attachment_create_fails: "crud_attachment_create d obj_in = None"
  by (simp add: crud_attachment_create_def)

lemma upload_file_fails: "\<exists>e. upload_file d tok cid upfile saved = (Inl e, d)"
  by (simp add: upload_file_def crud_attachment_create_fails split: sum.splits option.splits)

lemma keys_of_upload_file: "keys_of (snd (upload_file d tok cid upfile saved)) = keys_of d"
  by (metis upload_file_fails snd_conv)

lemma keys_of_create_message: "keys_of (snd (create_message d tok now cid md)) = keys_of d"
proof -
  have "keys_of (snd (crud_message_create d now md sid)) = keys_of d" for sid
    by (simp add: crud_message_create_def Let_def keys_of_def user_keys_def complaint_keys_def)
  then show ?thesis
    by (simp add: create_message_def Let_def split_beta split: sum.splits option.splits)
qed

lemma keys_of_mark_notification_read: "keys_of (snd (mark_notification_read d tok nid)) = keys_of d"
  by (simp add: mark_notification_read_def crud_notification_mark_as_read_def keys_of_def
        user_keys_def complaint_keys_def split: sum.splits option.splits)

lemma keys_of_mark_all_notifications_read:
  "keys_of (snd (mark_all_notifications_read d tok)) = keys_of d"
  by (simp add: mark_all_notifications_read_def crud_notification_mark_all_as_read_def keys_of_def
        user_keys_def complaint_keys_def split: sum.splits)

lemma tenant_consistent_reset_demo_data: "tenant_consistent (reset_demo_data d)"
  by (simp add: reset_demo_data_def create_default_data_def crud_user_create_def Let_def
        tenant_consistent_def user_keys_def complaint_keys_def)

lemma tenant_consistent_step:
  "tenant_consistent d \<Longrightarrow> tenant_consistent (step d r)"
  by (cases r)
     (simp_all add: tenant_consistent_register tenant_consistent_create_complaint
        tenant_consistent_reset_demo_data
        tenant_consistent_keys[OF keys_of_update_user]
        tenant_consistent_keys[OF keys_of_update_complaint]
        tenant_consistent_keys[OF keys_of_assign_complaint]
        tenant_consistent_keys[OF keys_of_update_complaint_status]
        tenant_consistent_keys[OF keys_of_upload_file]
        tenant_consistent_keys[OF keys_of_create_message]
        tenant_consistent_keys[OF keys_of_mark_notification_read]
        tenant_consistent_keys[OF keys_of_mark_all_notifications_read])

lemma tenant_consistent_run:
  "tenant_consistent d \<Longrightarrow> tenant_consistent (run d rs)"
  unfolding run_def by (induction rs arbitrary: d) (simp_all add: tenant_consistent_step)

lemma tenant_consistent_initial_db: "tenant_consistent initial_db"
  by (simp add: initial_db_def empty_db_def create_default_data_def crud_user_create_def Let_def
        tenant_consistent_def user_keys_def complaint_keys_def)

lemma tenant_consistent_complainant:
  assumes "tenant_consistent d" "c \<in> set (complaints d)"
  shows "(\<exists>u \<in> set (users d). u_id u = c_complainant_id c)
         \<and> (\<forall>u \<in> set (users d). u_id u = c_complainant_id c
               \<longrightarrow> u_university_id u = c_university_id c)"
proof -
  have dist: "distinct (map fst (user_keys d))"
    and mem: "(c_complainant_id c, c_university_id c) \<in> set (user_keys d)"
    using assms by (auto simp: tenant_consistent_def list_all_iff complaint_keys_def)
  from mem have ex: "\<exists>u \<in> set (users d). u_id u = c_complainant_id c"
    by (auto simp: user_keys_def)
  have "u_university_id u = c_university_id c"
    if "u \<in> set (users d)" "u_id u = c_complainant_id c" for u
  proof -
    have "(c_complainant_id c, u_university_id u) \<in> set (user_keys d)"
      using that by (force simp: user_keys_def)
    with mem dist show ?thesis
      by (meson eq_key_imp_eq_value)
  qed
  with ex show ?thesis by blast
qed

section \<open>Access to a complaint\<close>

text \<open>
  C1. For every actor and every complaint, \<open>can_access_complaint\<close> is true when the
  actor is a super admin; otherwise it is false when the actor's university differs from
  the complaint's; otherwise it is true when the actor is the complainant, or is among
  the assigned users, or has the role staff or admin; in all remaining cases it is false.
\<close>

theorem can_access_complaint_rules:
  "(u_role actor = SUPER_ADMIN \<longrightarrow> can_access_complaint actor c)
   \<and> (u_role actor \<noteq> SUPER_ADMIN \<and> u_university_id actor \<noteq> c_university_id c
        \<longrightarrow> \<not> can_access_complaint actor c)
   \<and> (u_role actor \<noteq> SUPER_ADMIN \<and> u_university_id actor = c_university_id c
        \<and> (u_id actor = c_complainant_id c \<or> u_id actor \<in> set (c_assigned_to c)
             \<or> u_role actor = STAFF \<or> u_role actor = ADMIN)
        \<longrightarrow> can_access_complaint actor c)
   \<and> (u_role actor \<noteq> SUPER_ADMIN \<and> u_university_id actor = c_university_id c
        \<and> u_id actor \<noteq> c_complainant_id c \<and> u_id actor \<notin> set (c_assigned_to c)
        \<and> u_role actor \<noteq> STAFF \<and> u_role actor \<noteq> ADMIN
        \<longrightarrow> \<not> can_access_complaint actor c)"
  by (auto simp: can_access_complaint_def)

theorem can_access_complaint_rules_witness:
  "u_role ex_super_admin = SUPER_ADMIN \<and> can_access_complaint ex_super_admin ex_complaint
   \<and> u_role ex_foreign_admin \<noteq> SUPER_ADMIN
   \<and> u_university_id ex_foreign_admin \<noteq> c_university_id ex_complaint
   \<and> \<not> can_access_complaint ex_foreign_admin ex_complaint
   \<and> u_role ex_student \<noteq> SUPER_ADMIN
   \<and> u_university_id ex_student = c_university_id ex_complaint
   \<and> u_id ex_student = c_complainant_id ex_complaint
   \<and> can_access_complaint ex_student ex_complaint
   \<and> u_role ex_other_student \<noteq> SUPER_ADMIN
   \<and> u_university_id ex_other_student = c_university_id ex_complaint
   \<and> u_id ex_other_student \<noteq> c_complainant_id ex_complaint
   \<and> u_id ex_other_student \<notin> set (c_assigned_to ex_complaint)
   \<and> u_role ex_other_student \<noteq> STAFF \<and> u_role ex_other_student \<noteq> ADMIN
   \<and> \<not> can_access_complaint ex_other_student ex_complaint"
  using can_access_complaint_rules [of ex_super_admin ex_complaint]
    can_access_complaint_rules [of ex_foreign_admin ex_complaint]
    can_access_complaint_rules [of ex_student ex_complaint]
    can_access_complaint_rules [of ex_other_student ex_complaint]
  by (simp add: ex_super_admin_def ex_foreign_admin_def ex_student_def ex_other_student_def
        ex_complaint_def)

section \<open>The complaint's university is its complainant's\<close>

text \<open>
  C2. Creating a complaint for a university other than the caller's is refused with 403
  and leaves the database as it was. A complaint that is created is appended with the
  caller as complainant and the caller's university as its university. Every request
  keeps the database consistent, so in every database reached from the initial one each
  complaint's complainant is a user, and every user with that id has the complaint's
  university.
\<close>

theorem complaint_university_invariant:
  "(get_current_active_user d tok = Inr actor
      \<and> cc_university_id complaint_data \<noteq> u_university_id actor
      \<longrightarrow> create_complaint d tok now complaint_data
            = (Inl (HTTPException 403 ''Cannot create complaint for different university''), d))
   \<and> (create_complaint d tok now complaint_data = (Inr c, d')
      \<longrightarrow> (\<exists>actor. get_current_active_user d tok = Inr actor
                \<and> c_complainant_id c = u_id actor
                \<and> c_university_id c = u_university_id actor
                \<and> cc_university_id complaint_data = u_university_id actor
                \<and> complaints d' = complaints d @ [c]))
   \<and> (tenant_consistent d \<longrightarrow> tenant_consistent (step d r))
   \<and> (\<forall>x \<in> set (complaints (run initial_db rs)).
         (\<exists>u \<in> set (users (run initial_db rs)). u_id u = c_complainant_id x)
         \<and> (\<forall>u \<in> set (users (run initial_db rs)).
               u_id u = c_complainant_id x \<longrightarrow> u_university_id u = c_university_id x))"
proof -
  have rejected: "create_complaint d tok now complaint_data
        = (Inl (HTTPException 403 ''Cannot create complaint for different university''), d)"
    if "get_current_active_user d tok = Inr actor"
      "cc_university_id complaint_data \<noteq> u_university_id actor"
    using that by (simp add: create_complaint_def)
  have created: "\<exists>actor. get_current_active_user d tok = Inr actor
        \<and> c_complainant_id c = u_id actor \<and> c_university_id c = u_university_id actor
        \<and> cc_university_id complaint_data = u_university_id actor
        \<and> complaints d' = complaints d @ [c]"
    if ok: "create_complaint d tok now complaint_data = (Inr c, d')"
  proof (cases "get_current_active_user d tok")
    case (Inl e)
    with ok show ?thesis by (simp add: create_complaint_def)
  next
    case (Inr u)
    have same: "cc_university_id complaint_data = u_university_id u"
      using ok Inr by (auto simp: create_complaint_def split: if_splits)
    have c_eq: "c = fst (crud_complaint_create d now complaint_data (u_id u))"
      using ok Inr same by (simp add: create_complaint_def Let_def split_beta)
    have "complaints d' = complaints (snd (crud_complaint_create d now complaint_data (u_id u)))"
      using ok Inr same
      by (auto simp: create_complaint_def Let_def split_beta log_activity_frame
            create_notification_frame foldl_keeps)
    with c_eq Inr same show ?thesis
      by (simp add: crud_complaint_create_def Let_def)
  qed
  have reach: "tenant_consistent (run initial_db rs)"
    by (rule tenant_consistent_run[OF tenant_consistent_initial_db])
  show ?thesis
    using rejected created tenant_consistent_step tenant_consistent_complainant[OF reach]
    by blast
qed

theorem complaint_university_invariant_witness:
  "get_current_active_user ex_db 2 = Inr ex_student
   \<and> cc_university_id (ex_complaint_data 2) \<noteq> u_university_id ex_student
   \<and> create_complaint ex_db 2 5000 (ex_complaint_data 2)
       = (Inl (HTTPException 403 ''Cannot create complaint for different university''), ex_db)
   \<and> fst (create_complaint ex_db 2 5000 (ex_complaint_data 1)) = Inr (ex_new_complaint 2)
   \<and> c_complainant_id (ex_new_complaint 2) = u_id ex_student
   \<and> c_university_id (ex_new_complaint 2) = u_university_id ex_student
   \<and> complaints (snd (create_complaint ex_db 2 5000 (ex_complaint_data 1)))
       = complaints ex_db @ [ex_new_complaint 2]
   \<and> tenant_consistent ex_db
   \<and> tenant_consistent (step ex_db (CreateComplaint 2 5000 (ex_complaint_data 1)))
   \<and> ex_new_complaint 1 \<in> set (complaints (run initial_db [CreateComplaint 2 5000 (ex_complaint_data 1)]))
   \<and> ex_student \<in> set (users (run initial_db [CreateComplaint 2 5000 (ex_complaint_data 1)]))
   \<and> u_id ex_student = c_complainant_id (ex_new_complaint 1)
   \<and> u_university_id ex_student = c_university_id (ex_new_complaint 1)"
proof -
  let ?rs = "[CreateComplaint 2 5000 (ex_complaint_data 1)]"
  let ?d' = "snd (create_complaint ex_db 2 5000 (ex_complaint_data 1))"
  have h1: "get_current_active_user ex_db 2 = Inr ex_student" by code_simp
  have h2: "cc_university_id (ex_complaint_data 2) \<noteq> u_university_id ex_student" by code_simp
  have h3: "create_complaint ex_db 2 5000 (ex_complaint_data 1) = (Inr (ex_new_complaint 2), ?d')"
    by code_simp
  have h4: "tenant_consistent ex_db" by code_simp
  have h5: "ex_new_complaint 1 \<in> set (complaints (run initial_db ?rs))" by code_simp
  have h6: "ex_student \<in> set (users (run initial_db ?rs))" by code_simp
  have h7: "u_id ex_student = c_complainant_id (ex_new_complaint 1)" by code_simp
  note T1 = complaint_university_invariant
    [where d = ex_db and tok = 2 and actor = ex_student and complaint_data = "ex_complaint_data 2"
       and now = 5000 and r = "CreateComplaint 2 5000 (ex_complaint_data 1)" and rs = ?rs]
  note T2 = complaint_university_invariant
    [where d = ex_db and tok = 2 and complaint_data = "ex_complaint_data 1"
       and now = 5000 and c = "ex_new_complaint 2" and d' = ?d' and rs = ?rs]
  from T1 h1 h2 have c1: "create_complaint ex_db 2 5000 (ex_complaint_data 2)
       = (Inl (HTTPException 403 ''Cannot create complaint for different university''), ex_db)"
    by blast
  from T2 h3 h1 have c2: "c_complainant_id (ex_new_complaint 2) = u_id ex_student
      \<and> c_university_id (ex_new_complaint 2) = u_university_id ex_student
      \<and> complaints ?d' = complaints ex_db @ [ex_new_complaint 2]"
    by auto
  from T1 h4 have c3: "tenant_consistent (step ex_db (CreateComplaint 2 5000 (ex_complaint_data 1)))"
    by blast
  from T1 h5 h6 h7 have c4: "u_university_id ex_student = c_university_id (ex_new_complaint 1)"
    by blast
  from h3 have c5: "fst (create_complaint ex_db 2 5000 (ex_complaint_data 1)) = Inr (ex_new_complaint 2)"
    by (metis fst_conv)
  show ?thesis using h1 h2 c1 c5 c2 h4 c3 h5 h6 h7 c4 by blast
qed

section \<open>Updating a complaint\<close>

lemma find_update_first:
  "find p xs = Some x \<Longrightarrow> p (f x) \<Longrightarrow> find p (update_first p f xs) = Some (f x)"
  by (induction xs) (auto split: if_splits)

lemma find_None_update_first:
  "find p xs = None \<Longrightarrow> update_first p f xs = xs"
  by (induction xs) (auto split: if_splits)

lemma update_first_idem:
  "(\<And>x. p x \<Longrightarrow> p (f x) \<and> f (f x) = f x) \<Longrightarrow>
   update_first p f (update_first p f xs) = update_first p f xs"
  by (induction xs) auto

text \<open>
  The claim C3 as first stated also covers closed complaints. The guard of
  \<^verbatim>\<open>update_complaint\<close> tests the status \<^verbatim>\<open>resolved\<close> only: the student who filed a
  complaint that is now closed can still update it, here setting it back to
  \<^verbatim>\<open>in_progress\<close>.
\<close>

theorem student_updates_closed_complaint_counterexample:
  "get_current_active_user (ex_db_with_status CLOSED) 2 = Inr ex_student
   \<and> u_role ex_student = STUDENT
   \<and> crud_complaint_get (ex_db_with_status CLOSED) 1 = Some (ex_complaint\<lparr> c_status := CLOSED \<rparr>)
   \<and> fst (update_complaint (ex_db_with_status CLOSED) 2 1 ex_reopen)
       = Inr (ex_complaint\<lparr> c_status := IN_PROGRESS \<rparr>)
   \<and> complaints (snd (update_complaint (ex_db_with_status CLOSED) 2 1 ex_reopen))
       = [ex_complaint\<lparr> c_status := IN_PROGRESS \<rparr>]"
  by code_simp

text \<open>
  C3, amended. When the caller is a student and the complaint is resolved, or is not the
  caller's own, \<^verbatim>\<open>update_complaint\<close> answers 403 and leaves the database as it was.
  When the caller is staff, admin or super admin and has access, the update is accepted
  whatever the status: the response and the stored row are the complaint with the
  request's fields applied.
\<close>

theorem update_complaint_student_guard:
  "(get_current_active_user d tok = Inr actor \<and> crud_complaint_get d cid = Some c
      \<and> u_role actor = STUDENT
      \<and> (c_status c = RESOLVED \<or> c_complainant_id c \<noteq> u_id actor)
      \<longrightarrow> update_complaint d tok cid upd
            = (Inl (HTTPException 403 (if can_access_complaint actor c
                                        then ''Cannot update this complaint''
                                        else ''Access denied'')), d))
   \<and> (get_current_active_user d tok = Inr actor \<and> crud_complaint_get d cid = Some c
      \<and> u_role actor \<in> {STAFF, ADMIN, SUPER_ADMIN} \<and> can_access_complaint actor c
      \<longrightarrow> fst (update_complaint d tok cid upd) = Inr (apply_complaint_update c upd)
          \<and> crud_complaint_get (snd (update_complaint d tok cid upd)) cid
              = Some (apply_complaint_update c upd))"
proof -
  have id_kept: "c_id (apply_complaint_update x upd) = c_id x" for x
    by (simp add: apply_complaint_update_def Let_def split: option.splits)
  have complaints_log: "complaints (log_update_changes d1 cid uid os op upd) = complaints d1"
    for d1 uid os op
    by (simp add: log_update_changes_def Let_def log_activity_frame split: option.splits)
  have stored: "crud_complaint_get (snd (crud_complaint_update d c upd)) cid
                  = Some (apply_complaint_update c upd)"
    if "crud_complaint_get d cid = Some c"
  proof -
    from that have f: "find (\<lambda>x. c_id x = cid) (complaints d) = Some c"
      by (simp add: crud_complaint_get_def)
    then have "c_id c = cid" by (auto dest: find_Some_set)
    with f show ?thesis
      by (simp add: crud_complaint_get_def crud_complaint_update_def find_update_first id_kept)
  qed
  show ?thesis
    using stored
    by (auto simp: update_complaint_def Let_def split_beta complaints_log crud_complaint_get_def
          crud_complaint_update_def)
qed

theorem update_complaint_student_guard_witness:
  "get_current_active_user (ex_db_with_status RESOLVED) 2 = Inr ex_student
   \<and> crud_complaint_get (ex_db_with_status RESOLVED) 1 = Some (ex_complaint\<lparr> c_status := RESOLVED \<rparr>)
   \<and> u_role ex_student = STUDENT
   \<and> update_complaint (ex_db_with_status RESOLVED) 2 1 ex_reopen
       = (Inl (HTTPException 403 ''Cannot update this complaint''), ex_db_with_status RESOLVED)
   \<and> get_current_active_user ex_db 6 = Inr ex_other_student
   \<and> crud_complaint_get ex_db 1 = Some ex_complaint
   \<and> u_role ex_other_student = STUDENT
   \<and> c_complainant_id ex_complaint \<noteq> u_id ex_other_student
   \<and> update_complaint ex_db 6 1 ex_reopen = (Inl (HTTPException 403 ''Access denied''), ex_db)
   \<and> get_current_active_user (ex_db_with_status RESOLVED) 3 = Inr ex_staff
   \<and> u_role ex_staff \<in> {STAFF, ADMIN, SUPER_ADMIN}
   \<and> can_access_complaint ex_staff (ex_complaint\<lparr> c_status := RESOLVED \<rparr>)
   \<and> fst (update_complaint (ex_db_with_status RESOLVED) 3 1 ex_reopen)
       = Inr (ex_complaint\<lparr> c_status := IN_PROGRESS \<rparr>)
   \<and> crud_complaint_get (snd (update_complaint (ex_db_with_status RESOLVED) 3 1 ex_reopen)) 1
       = Some (ex_complaint\<lparr> c_status := IN_PROGRESS \<rparr>)"
proof -
  let ?r = "ex_complaint\<lparr> c_status := RESOLVED \<rparr>"
  have a1: "get_current_active_user (ex_db_with_status RESOLVED) 2 = Inr ex_student" by code_simp
  have a2: "crud_complaint_get (ex_db_with_status RESOLVED) 1 = Some ?r" by code_simp
  have a3: "u_role ex_student = STUDENT" by code_simp
  have a4: "c_status ?r = RESOLVED" by code_simp
  have a5: "can_access_complaint ex_student ?r" by code_simp
  have b1: "get_current_active_user ex_db 6 = Inr ex_other_student" by code_simp
  have b2: "crud_complaint_get ex_db 1 = Some ex_complaint" by code_simp
  have b3: "u_role ex_other_student = STUDENT" by code_simp
  have b4: "c_complainant_id ex_complaint \<noteq> u_id ex_other_student" by code_simp
  have b5: "\<not> can_access_complaint ex_other_student ex_complaint" by code_simp
  have c1: "get_current_active_user (ex_db_with_status RESOLVED) 3 = Inr ex_staff" by code_simp
  have c2: "u_role ex_staff \<in> {STAFF, ADMIN, SUPER_ADMIN}" by code_simp
  have c3: "can_access_complaint ex_staff ?r" by code_simp
  have c4: "apply_complaint_update ?r ex_reopen = ex_complaint\<lparr> c_status := IN_PROGRESS \<rparr>"
    by code_simp
  note A = update_complaint_student_guard
    [where d = "ex_db_with_status RESOLVED" and tok = 2 and actor = ex_student and cid = 1
       and c = ?r and upd = ex_reopen]
  note B = update_complaint_student_guard
    [where d = ex_db and tok = 6 and actor = ex_other_student and cid = 1
       and c = ex_complaint and upd = ex_reopen]
  note C = update_complaint_student_guard
    [where d = "ex_db_with_status RESOLVED" and tok = 3 and actor = ex_staff and cid = 1
       and c = ?r and upd = ex_reopen]
  from A a1 a2 a3 a4 a5 have ra: "update_complaint (ex_db_with_status RESOLVED) 2 1 ex_reopen
       = (Inl (HTTPException 403 ''Cannot update this complaint''), ex_db_with_status RESOLVED)"
    by simp
  from B b1 b2 b3 b4 b5 have rb: "update_complaint ex_db 6 1 ex_reopen
       = (Inl (HTTPException 403 ''Access denied''), ex_db)"
    by simp
  from C c1 a2 c2 c3 c4 have rc:
    "fst (update_complaint (ex_db_with_status RESOLVED) 3 1 ex_reopen)
       = Inr (ex_complaint\<lparr> c_status := IN_PROGRESS \<rparr>)
     \<and> crud_complaint_get (snd (update_complaint (ex_db_with_status RESOLVED) 3 1 ex_reopen)) 1
       = Some (ex_complaint\<lparr> c_status := IN_PROGRESS \<rparr>)"
    by auto
  show ?thesis using a1 a2 a3 ra b1 b2 b3 b4 rb c1 c2 c3 rc by blast
qed

section \<open>Assigning users\<close>

text \<open>
  C4. For an existing complaint, \<^verbatim>\<open>assign_users\<close> returns and stores the complaint with
  its assignment replaced, all else kept; the assigned users are exactly the users whose
  ids occur in the list, each once; the empty list leaves nobody assigned. A list with
  repeated ids has the effect of the list without repetitions, and assigning the same
  list a second time changes nothing.
\<close>

theorem assign_users_replaces:
  "(crud_complaint_get d cid = Some c \<longrightarrow>
      (\<exists>c'. fst (crud_complaint_assign_users d cid ids) = Some c'
          \<and> crud_complaint_get (snd (crud_complaint_assign_users d cid ids)) cid = Some c'
          \<and> c' = c\<lparr> c_assigned_to := c_assigned_to c' \<rparr>
          \<and> set (c_assigned_to c') = u_id ` set (users d) \<inter> set ids
          \<and> (distinct (map u_id (users d)) \<longrightarrow> distinct (c_assigned_to c'))
          \<and> (ids = [] \<longrightarrow> c_assigned_to c' = [])))
   \<and> crud_complaint_assign_users d cid ids = crud_complaint_assign_users d cid (remdups ids)
   \<and> crud_complaint_assign_users (snd (crud_complaint_assign_users d cid ids)) cid ids
       = crud_complaint_assign_users d cid ids"
proof -
  let ?as = "map u_id (filter (\<lambda>u. u_id u \<in> set ids) (users d))"
  let ?f = "\<lambda>x. x\<lparr> c_assigned_to := ?as \<rparr>"
  let ?p = "\<lambda>x. c_id x = cid"
  have first: "\<exists>c'. fst (crud_complaint_assign_users d cid ids) = Some c'
          \<and> crud_complaint_get (snd (crud_complaint_assign_users d cid ids)) cid = Some c'
          \<and> c' = c\<lparr> c_assigned_to := c_assigned_to c' \<rparr>
          \<and> set (c_assigned_to c') = u_id ` set (users d) \<inter> set ids
          \<and> (distinct (map u_id (users d)) \<longrightarrow> distinct (c_assigned_to c'))
          \<and> (ids = [] \<longrightarrow> c_assigned_to c' = [])"
    if "crud_complaint_get d cid = Some c"
  proof -
    from that have f: "find ?p (complaints d) = Some c"
      by (simp add: crud_complaint_get_def)
    then have "find ?p (update_first ?p ?f (complaints d)) = Some (?f c)"
      by (rule find_update_first) (use f in \<open>auto dest: find_Some_set\<close>)
    moreover have "set ?as = u_id ` set (users d) \<inter> set ids" by auto
    moreover have "distinct (map u_id (users d)) \<Longrightarrow> distinct ?as"
      by (simp add: distinct_map_filter)
    ultimately show ?thesis
      using f by (simp add: crud_complaint_assign_users_def crud_complaint_get_def Let_def)
  qed
  have dup: "crud_complaint_assign_users d cid ids = crud_complaint_assign_users d cid (remdups ids)"
    by (simp add: crud_complaint_assign_users_def Let_def split: option.splits)
  have idem: "crud_complaint_assign_users (snd (crud_complaint_assign_users d cid ids)) cid ids
       = crud_complaint_assign_users d cid ids"
  proof (cases "find ?p (complaints d)")
    case None
    then show ?thesis by (simp add: crud_complaint_assign_users_def)
  next
    case (Some c0)
    then have found: "find ?p (update_first ?p ?f (complaints d)) = Some (?f c0)"
      by (rule find_update_first) (use Some in \<open>auto dest: find_Some_set\<close>)
    have again: "update_first ?p ?f (update_first ?p ?f (complaints d)) = update_first ?p ?f (complaints d)"
      by (rule update_first_idem) simp
    show ?thesis
      using Some found again
      by (simp add: crud_complaint_assign_users_def Let_def)
  qed
  show ?thesis using first dup idem by blast
qed

theorem assign_users_replaces_witness:
  "crud_complaint_get ex_db 1 = Some ex_complaint
   \<and> fst (crud_complaint_assign_users ex_db 1 [3, 1, 3, 99])
       = Some (ex_complaint\<lparr> c_assigned_to := [1, 3] \<rparr>)
   \<and> crud_complaint_get (snd (crud_complaint_assign_users ex_db 1 [3, 1, 3, 99])) 1
       = Some (ex_complaint\<lparr> c_assigned_to := [1, 3] \<rparr>)
   \<and> set [1, 3] = u_id ` set (users ex_db) \<inter> set [3, 1, 3, 99]
   \<and> distinct (map u_id (users ex_db))
   \<and> distinct [1, 3 :: int]
   \<and> fst (crud_complaint_assign_users ex_db 1 []) = Some (ex_complaint\<lparr> c_assigned_to := [] \<rparr>)"
proof -
  let ?c' = "ex_complaint\<lparr> c_assigned_to := [1, 3] \<rparr>"
  have h: "crud_complaint_get ex_db 1 = Some ex_complaint" by code_simp
  have e1: "fst (crud_complaint_assign_users ex_db 1 [3, 1, 3, 99]) = Some ?c'" by code_simp
  have e2: "distinct (map u_id (users ex_db))" by code_simp
  have e3: "c_assigned_to ?c' = [1, 3]" by simp
  have "\<exists>c'. fst (crud_complaint_assign_users ex_db 1 [3, 1, 3, 99]) = Some c'
          \<and> crud_complaint_get (snd (crud_complaint_assign_users ex_db 1 [3, 1, 3, 99])) 1 = Some c'
          \<and> c' = ex_complaint\<lparr> c_assigned_to := c_assigned_to c' \<rparr>
          \<and> set (c_assigned_to c') = u_id ` set (users ex_db) \<inter> set [3, 1, 3, 99]
          \<and> (distinct (map u_id (users ex_db)) \<longrightarrow> distinct (c_assigned_to c'))
          \<and> ([3, 1, 3, 99] = ([] :: int list) \<longrightarrow> c_assigned_to c' = [])"
    by (rule mp [OF conjunct1 [OF assign_users_replaces [of ex_db 1 ex_complaint "[3, 1, 3, 99]"]] h])
  then obtain c1 where c1: "fst (crud_complaint_assign_users ex_db 1 [3, 1, 3, 99]) = Some c1"
      "crud_complaint_get (snd (crud_complaint_assign_users ex_db 1 [3, 1, 3, 99])) 1 = Some c1"
      "set (c_assigned_to c1) = u_id ` set (users ex_db) \<inter> set [3, 1, 3, 99]"
      "distinct (map u_id (users ex_db)) \<longrightarrow> distinct (c_assigned_to c1)"
    by (elim exE conjE)
  from c1(1) e1 have eq1: "c1 = ?c'" by simp
  have r1: "crud_complaint_get (snd (crud_complaint_assign_users ex_db 1 [3, 1, 3, 99])) 1 = Some ?c'"
    using c1(2) unfolding eq1 .
  have r2: "set [1, 3] = u_id ` set (users ex_db) \<inter> set [3, 1, 3, 99]"
    using c1(3) unfolding eq1 e3 .
  have r3: "distinct [1, 3 :: int]"
    using c1(4) e2 unfolding eq1 e3 by (rule mp)
  have "\<exists>c'. fst (crud_complaint_assign_users ex_db 1 []) = Some c'
          \<and> crud_complaint_get (snd (crud_complaint_assign_users ex_db 1 [])) 1 = Some c'
          \<and> c' = ex_complaint\<lparr> c_assigned_to := c_assigned_to c' \<rparr>
          \<and> set (c_assigned_to c') = u_id ` set (users ex_db) \<inter> set []
          \<and> (distinct (map u_id (users ex_db)) \<longrightarrow> distinct (c_assigned_to c'))
          \<and> (([] :: int list) = [] \<longrightarrow> c_assigned_to c' = [])"
    by (rule mp [OF conjunct1 [OF assign_users_replaces [of ex_db 1 ex_complaint "[]"]] h])
  then obtain c0 where c0: "fst (crud_complaint_assign_users ex_db 1 []) = Some c0"
      "c0 = ex_complaint\<lparr> c_assigned_to := c_assigned_to c0 \<rparr>"
      "([] :: int list) = [] \<longrightarrow> c_assigned_to c0 = []"
    by (elim exE conjE)
  from c0(3) have "c_assigned_to c0 = []" by simp
  with c0(2) have "c0 = ex_complaint\<lparr> c_assigned_to := [] \<rparr>" by simp
  with c0(1) have r4: "fst (crud_complaint_assign_users ex_db 1 []) = Some (ex_complaint\<lparr> c_assigned_to := [] \<rparr>)"
    by simp
  from h e1 r1 r2 e2 r3 r4 show ?thesis by (intro conjI)
qed

section \<open>Changing the status\<close>

lemma crud_complaint_update_status_found:
  assumes "crud_complaint_get d cid = Some c"
  shows "crud_complaint_update_status d now cid st res rb
           = (Some (set_status c now st res rb, c_status c),
              d\<lparr> complaints := update_first (\<lambda>x. c_id x = cid)
                    (\<lambda>x. set_status x now st res rb) (complaints d) \<rparr>)"
    and "crud_complaint_get (snd (crud_complaint_update_status d now cid st res rb)) cid
           = Some (set_status c now st res rb)"
proof -
  from assms have f: "find (\<lambda>x. c_id x = cid) (complaints d) = Some c"
    by (simp add: crud_complaint_get_def)
  then have cid: "c_id c = cid" by (auto dest: find_Some_set)
  show 1: "crud_complaint_update_status d now cid st res rb
           = (Some (set_status c now st res rb, c_status c),
              d\<lparr> complaints := update_first (\<lambda>x. c_id x = cid)
                    (\<lambda>x. set_status x now st res rb) (complaints d) \<rparr>)"
    using f by (simp add: crud_complaint_update_status_def Let_def)
  have "c_id (set_status c now st res rb) = cid"
    using cid by (simp add: set_status_def Let_def)
  with f have "find (\<lambda>x. c_id x = cid)
        (update_first (\<lambda>x. c_id x = cid) (\<lambda>x. set_status x now st res rb) (complaints d))
      = Some (set_status c now st res rb)"
    by (simp add: find_update_first)
  then show "crud_complaint_get (snd (crud_complaint_update_status d now cid st res rb)) cid
           = Some (set_status c now st res rb)"
    by (simp add: 1 crud_complaint_get_def)
qed

lemma update_complaint_status_found:
  assumes "get_admin_user d tok = Inr actor" "crud_complaint_get d cid = Some c"
  shows "fst (update_complaint_status d tok now cid su) = Inr ()"
    and "complaints (snd (update_complaint_status d tok now cid su))
          = complaints (snd (crud_complaint_update_status d now cid (su_status su) (su_resolution su)
                (if su_status su = RESOLVED then Some (u_id actor) else None)))"
    and "activities (snd (update_complaint_status d tok now cid su))
          = activities d @ [\<lparr> a_action = ''status_updated'', a_complaint_id = cid,
                a_user_id = u_id actor, a_old_value = Some (status_value (c_status c)),
                a_new_value = Some (status_value (su_status su)) \<rparr>]"
    and "notifications (snd (update_complaint_status d tok now cid su))
          = notifications d @ [\<lparr> n_id = notification_seq d + 1,
                n_title = ''Complaint Status Updated'', n_user_id = c_complainant_id c,
                n_complaint_id = Some cid, n_is_read = False, n_notification_type = ''system'' \<rparr>]"
  using assms
  by (simp_all add: update_complaint_status_def crud_complaint_update_status_found(1) Let_def
        create_notification_def crud_activity_log_activity_def set_status_def)

text \<open>
  The claim C5 as first stated has every supplied resolution text stored. The test
  \<^verbatim>\<open>if resolution:\<close> of \<^verbatim>\<open>update_status\<close> fails for the empty string: resolving with the
  resolution \<^verbatim>\<open>""\<close> keeps the resolution the complaint had.
\<close>

theorem update_status_empty_resolution_counterexample:
  "get_admin_user ex_resolved_db 1 = Inr ex_admin
   \<and> crud_complaint_get ex_resolved_db 1 = Some ex_resolved_complaint
   \<and> c_resolution ex_resolved_complaint = Some ''fixed''
   \<and> update_complaint_status ex_resolved_db 1 5000 1
        \<lparr> su_status = RESOLVED, su_resolution = Some '''' \<rparr>
      = (Inr (), snd (update_complaint_status ex_resolved_db 1 5000 1
                        \<lparr> su_status = RESOLVED, su_resolution = Some '''' \<rparr>))
   \<and> crud_complaint_get (snd (update_complaint_status ex_resolved_db 1 5000 1
          \<lparr> su_status = RESOLVED, su_resolution = Some '''' \<rparr>)) 1
      = Some (ex_resolved_complaint\<lparr> c_resolved_at := Some 5000, c_resolved_by_id := Some 1 \<rparr>)
   \<and> c_resolution (ex_resolved_complaint\<lparr> c_resolved_at := Some 5000, c_resolved_by_id := Some 1 \<rparr>)
      \<noteq> Some ''''"
  by code_simp

text \<open>
  C5, amended. For an existing complaint and a caller who passes \<^verbatim>\<open>get_admin_user\<close>, the
  status request succeeds and \<^verbatim>\<open>update_status\<close> returns the prior status. With the
  target \<^verbatim>\<open>resolved\<close> the stored complaint has the new status, the server time as
  \<open>resolved_at\<close>, the caller as \<open>resolved_by\<close>, and the supplied resolution when that is
  a non-empty text (the former resolution when none or the empty text is supplied);
  nothing else changes. With any other target only the status changes.
\<close>

theorem update_status_effect:
  "get_admin_user d tok = Inr actor \<and> crud_complaint_get d cid = Some c \<longrightarrow>
     (\<exists>c'. fst (update_complaint_status d tok now cid su) = Inr ()
        \<and> crud_complaint_get (snd (update_complaint_status d tok now cid su)) cid = Some c'
        \<and> map_option snd (fst (crud_complaint_update_status d now cid (su_status su)
              (su_resolution su) resolved_by_id)) = Some (c_status c)
        \<and> c_status c' = su_status su
        \<and> (su_status su = RESOLVED \<longrightarrow>
              c_resolved_at c' = Some now \<and> c_resolved_by_id c' = Some (u_id actor)
              \<and> c_resolution c' = (if su_resolution su = None \<or> su_resolution su = Some []
                                     then c_resolution c else su_resolution su)
              \<and> c' = c\<lparr> c_status := RESOLVED, c_resolved_at := Some now,
                         c_resolved_by_id := Some (u_id actor),
                         c_resolution := c_resolution c' \<rparr>)
        \<and> (su_status su \<noteq> RESOLVED \<longrightarrow> c' = c\<lparr> c_status := su_status su \<rparr>))"
proof (intro impI, elim conjE)
  assume a: "get_admin_user d tok = Inr actor" and c: "crud_complaint_get d cid = Some c"
  let ?rb = "if su_status su = RESOLVED then Some (u_id actor) else None"
  let ?c' = "set_status c now (su_status su) (su_resolution su) ?rb"
  have stored: "crud_complaint_get (snd (update_complaint_status d tok now cid su)) cid = Some ?c'"
    using update_complaint_status_found(2)[OF a c, of now su]
      crud_complaint_update_status_found(2)[OF c, of now "su_status su" "su_resolution su" ?rb]
    by (simp add: crud_complaint_get_def)
  have prior: "map_option snd (fst (crud_complaint_update_status d now cid (su_status su)
              (su_resolution su) resolved_by_id)) = Some (c_status c)"
    by (simp add: crud_complaint_update_status_found(1)[OF c])
  have truthy: "truthy_str r = (\<not> (r = None \<or> r = Some []))" for r
    by (cases r) simp_all
  have shape: "c_status ?c' = su_status su
        \<and> (su_status su = RESOLVED \<longrightarrow>
              c_resolved_at ?c' = Some now \<and> c_resolved_by_id ?c' = Some (u_id actor)
              \<and> c_resolution ?c' = (if su_resolution su = None \<or> su_resolution su = Some []
                                     then c_resolution c else su_resolution su)
              \<and> ?c' = c\<lparr> c_status := RESOLVED, c_resolved_at := Some now,
                         c_resolved_by_id := Some (u_id actor),
                         c_resolution := c_resolution ?c' \<rparr>)
        \<and> (su_status su \<noteq> RESOLVED \<longrightarrow> ?c' = c\<lparr> c_status := su_status su \<rparr>)"
    by (simp add: set_status_def Let_def truthy)
  show "\<exists>c'. fst (update_complaint_status d tok now cid su) = Inr ()
        \<and> crud_complaint_get (snd (update_complaint_status d tok now cid su)) cid = Some c'
        \<and> map_option snd (fst (crud_complaint_update_status d now cid (su_status su)
              (su_resolution su) resolved_by_id)) = Some (c_status c)
        \<and> c_status c' = su_status su
        \<and> (su_status su = RESOLVED \<longrightarrow>
              c_resolved_at c' = Some now \<and> c_resolved_by_id c' = Some (u_id actor)
              \<and> c_resolution c' = (if su_resolution su = None \<or> su_resolution su = Some []
                                     then c_resolution c else su_resolution su)
              \<and> c' = c\<lparr> c_status := RESOLVED, c_resolved_at := Some now,
                         c_resolved_by_id := Some (u_id actor),
                         c_resolution := c_resolution c' \<rparr>)
        \<and> (su_status su \<noteq> RESOLVED \<longrightarrow> c' = c\<lparr> c_status := su_status su \<rparr>)"
    using update_complaint_status_found(1)[OF a c, of now su] stored prior shape
    by (intro exI[of _ ?c']) (intro conjI; assumption?; blast)
qed

theorem update_status_effect_witness:
  "get_admin_user ex_db 1 = Inr ex_admin
   \<and> crud_complaint_get ex_db 1 = Some ex_complaint
   \<and> su_status ex_resolve = RESOLVED
   \<and> crud_complaint_get (snd (update_complaint_status ex_db 1 5000 1 ex_resolve)) 1
       = Some (ex_complaint\<lparr> c_status := RESOLVED, c_resolved_at := Some 5000,
                              c_resolved_by_id := Some 1, c_resolution := Some ''fixed'' \<rparr>)
   \<and> su_status ex_review \<noteq> RESOLVED
   \<and> crud_complaint_get (snd (update_complaint_status ex_db 1 5000 1 ex_review)) 1
       = Some (ex_complaint\<lparr> c_status := UNDER_REVIEW \<rparr>)"
proof -
  have h1: "get_admin_user ex_db 1 = Inr ex_admin" by code_simp
  have h2: "crud_complaint_get ex_db 1 = Some ex_complaint" by code_simp
  have s1: "su_status ex_resolve = RESOLVED" by (simp add: ex_resolve_def)
  have s2: "su_resolution ex_resolve = Some ''fixed''" by (simp add: ex_resolve_def)
  have s3: "su_status ex_review \<noteq> RESOLVED" by (simp add: ex_review_def)
  have s4: "su_status ex_review = UNDER_REVIEW" by (simp add: ex_review_def)
  have s5: "u_id ex_admin = 1" by (simp add: ex_admin_def)
  note A = mp [OF update_status_effect [where d = ex_db and tok = 1 and actor = ex_admin
        and cid = 1 and c = ex_complaint and now = 5000 and su = ex_resolve
        and resolved_by_id = None] conjI [OF h1 h2]]
  note B = mp [OF update_status_effect [where d = ex_db and tok = 1 and actor = ex_admin
        and cid = 1 and c = ex_complaint and now = 5000 and su = ex_review
        and resolved_by_id = None] conjI [OF h1 h2]]
  from A obtain c1 where c1:
      "crud_complaint_get (snd (update_complaint_status ex_db 1 5000 1 ex_resolve)) 1 = Some c1"
      "su_status ex_resolve = RESOLVED \<longrightarrow>
         c_resolved_at c1 = Some 5000 \<and> c_resolved_by_id c1 = Some (u_id ex_admin)
         \<and> c_resolution c1 = (if su_resolution ex_resolve = None \<or> su_resolution ex_resolve = Some []
                                then c_resolution ex_complaint else su_resolution ex_resolve)
         \<and> c1 = ex_complaint\<lparr> c_status := RESOLVED, c_resolved_at := Some 5000,
                    c_resolved_by_id := Some (u_id ex_admin), c_resolution := c_resolution c1 \<rparr>"
    by (elim exE conjE)
  from c1(2) s1 have q: "c_resolved_at c1 = Some 5000 \<and> c_resolved_by_id c1 = Some (u_id ex_admin)
         \<and> c_resolution c1 = (if su_resolution ex_resolve = None \<or> su_resolution ex_resolve = Some []
                                then c_resolution ex_complaint else su_resolution ex_resolve)
         \<and> c1 = ex_complaint\<lparr> c_status := RESOLVED, c_resolved_at := Some 5000,
                    c_resolved_by_id := Some (u_id ex_admin), c_resolution := c_resolution c1 \<rparr>"
    by (rule mp)
  from q have q3: "c_resolution c1 = Some ''fixed''" by (simp add: s2)
  from q have q4: "c1 = ex_complaint\<lparr> c_status := RESOLVED, c_resolved_at := Some 5000,
                    c_resolved_by_id := Some (u_id ex_admin), c_resolution := c_resolution c1 \<rparr>"
    by (elim conjE)
  have "c1 = ex_complaint\<lparr> c_status := RESOLVED, c_resolved_at := Some 5000,
                    c_resolved_by_id := Some 1, c_resolution := Some ''fixed'' \<rparr>"
    by (subst q4) (simp add: q3 s5)
  with c1(1) have r1: "crud_complaint_get (snd (update_complaint_status ex_db 1 5000 1 ex_resolve)) 1
       = Some (ex_complaint\<lparr> c_status := RESOLVED, c_resolved_at := Some 5000,
                              c_resolved_by_id := Some 1, c_resolution := Some ''fixed'' \<rparr>)"
    by simp
  from B obtain c2 where c2:
      "crud_complaint_get (snd (update_complaint_status ex_db 1 5000 1 ex_review)) 1 = Some c2"
      "su_status ex_review \<noteq> RESOLVED \<longrightarrow> c2 = ex_complaint\<lparr> c_status := su_status ex_review \<rparr>"
    by (elim exE conjE)
  from c2(2) s3 have "c2 = ex_complaint\<lparr> c_status := su_status ex_review \<rparr>"
    by (rule mp)
  then have "c2 = ex_complaint\<lparr> c_status := UNDER_REVIEW \<rparr>"
    unfolding s4 .
  with c2(1) have r2: "crud_complaint_get (snd (update_complaint_status ex_db 1 5000 1 ex_review)) 1
       = Some (ex_complaint\<lparr> c_status := UNDER_REVIEW \<rparr>)"
    by simp
  from h1 h2 s1 r1 s3 r2 show ?thesis by (intro conjI)
qed

section \<open>Who is told of a status change\<close>

text \<open>
  C6. The complaint of the example was filed by user 2 and is assigned to user 3. When
  the admin (user 1) changes its status through \<^verbatim>\<open>update_complaint_status\<close>, one
  notification is created, for the complainant; the assigned user gets none. The service
  function \<^verbatim>\<open>notify_complaint_status_change\<close>, which no handler calls, would notify
  the complainant and the assigned user. (A status change through \<^verbatim>\<open>update_complaint\<close>
  creates no notification at all, as the lemma after the theorem shows.)
\<close>

theorem status_change_notifies_complainant_only:
  "c_complainant_id ex_complaint = 2 \<and> c_assigned_to ex_complaint = [3]
   \<and> fst (update_complaint_status ex_db 1 5000 1 ex_review) = Inr ()
   \<and> map n_user_id (drop (length (notifications ex_db))
        (notifications (snd (update_complaint_status ex_db 1 5000 1 ex_review)))) = [2]
   \<and> map n_user_id (drop (length (notifications ex_db))
        (notifications (notify_complaint_status_change ex_db ex_complaint ex_admin))) = [2, 3]"
  by code_simp

lemma update_complaint_creates_no_notification:
  "fst (update_complaint ex_db 1 1 ex_reopen) = Inr (ex_complaint\<lparr> c_status := IN_PROGRESS \<rparr>)
   \<and> notifications (snd (update_complaint ex_db 1 1 ex_reopen)) = notifications ex_db"
  by code_simp

section \<open>The activity log\<close>

lemma get_admin_user_in_users:
  "get_admin_user d tok = Inr u \<Longrightarrow> get_current_active_user d tok = Inr u \<and> u_id u = tok"
  by (auto simp: get_admin_user_def split: sum.splits if_splits
        dest: get_current_active_user_in_users)

lemma activities_foldl_notify:
  "activities (foldl (\<lambda>acc x. create_notification acc (f x) t c) d xs) = activities d"
  by (rule foldl_keeps) (simp add: create_notification_frame)

lemma activities_log:
  "activities (crud_activity_log_activity d cid uid a ov nv)
     = activities d @ [\<lparr> a_action = a, a_complaint_id = cid, a_user_id = uid,
                          a_old_value = ov, a_new_value = nv \<rparr>]"
  by (simp add: crud_activity_log_activity_def)

lemma create_complaint_activity:
  assumes "fst (create_complaint d tok now cd) = Inr c"
  shows "activities (snd (create_complaint d tok now cd))
          = activities d @ [\<lparr> a_action = ''complaint_created'', a_complaint_id = c_id c,
                               a_user_id = tok, a_old_value = None, a_new_value = None \<rparr>]"
proof (cases "get_current_active_user d tok")
  case (Inl e)
  with assms show ?thesis by (simp add: create_complaint_def)
next
  case (Inr u)
  then have tok: "u_id u = tok" by (simp add: get_current_active_user_in_users)
  have same: "cc_university_id cd = u_university_id u"
    using assms Inr by (auto simp: create_complaint_def split: if_splits)
  have "activities (snd (crud_complaint_create d now cd tok)) = activities d"
    by (simp add: crud_complaint_create_def Let_def)
  moreover have "c = fst (crud_complaint_create d now cd tok)"
    using assms Inr same tok by (simp add: create_complaint_def Let_def split_beta)
  ultimately show ?thesis
    using Inr same tok
    by (simp add: create_complaint_def Let_def split_beta activities_foldl_notify activities_log)
qed

lemma update_complaint_status_activity:
  assumes "fst (update_complaint_status d tok now cid su) = Inr ()"
  shows "\<exists>old. crud_complaint_get d cid = Some old
          \<and> activities (snd (update_complaint_status d tok now cid su))
              = activities d @ [\<lparr> a_action = ''status_updated'', a_complaint_id = cid,
                   a_user_id = tok, a_old_value = Some (status_value (c_status old)),
                   a_new_value = Some (status_value (su_status su)) \<rparr>]"
proof (cases "get_admin_user d tok")
  case (Inl e)
  with assms show ?thesis by (simp add: update_complaint_status_def)
next
  case (Inr u)
  then have tok: "u_id u = tok" by (simp add: get_admin_user_in_users)
  show ?thesis
  proof (cases "crud_complaint_get d cid")
    case None
    then have "find (\<lambda>c. c_id c = cid) (complaints d) = None"
      by (simp add: crud_complaint_get_def)
    with assms Inr show ?thesis
      by (simp add: update_complaint_status_def crud_complaint_update_status_def)
  next
    case (Some old)
    from update_complaint_status_found(3)[OF Inr Some, of now su] Some tok
    show ?thesis by simp
  qed
qed

lemma assign_complaint_activity:
  assumes "fst (assign_complaint d tok cid ids) = Inr ()"
  shows "activities (snd (assign_complaint d tok cid ids))
          = activities d @ [\<lparr> a_action = ''complaint_assigned'', a_complaint_id = cid,
                               a_user_id = tok, a_old_value = None, a_new_value = None \<rparr>]"
proof (cases "get_admin_user d tok")
  case (Inl e)
  with assms show ?thesis by (simp add: assign_complaint_def)
next
  case (Inr u)
  then have tok: "u_id u = tok" by (simp add: get_admin_user_in_users)
  have "activities (snd (crud_complaint_assign_users d cid ids)) = activities d"
    by (simp add: crud_complaint_assign_users_def Let_def split: option.splits)
  then show ?thesis
    using assms Inr tok
    by (auto simp: assign_complaint_def Let_def split_beta activities_foldl_notify[where f = "\<lambda>x. x"]
          activities_log split: option.splits if_splits)
qed

lemma create_message_activity:
  assumes "fst (create_message d tok now cid md) = Inr m"
  shows "activities (snd (create_message d tok now cid md))
          = activities d @ [\<lparr> a_action = ''message_added'', a_complaint_id = cid,
                               a_user_id = tok, a_old_value = None, a_new_value = None \<rparr>]"
proof (cases "get_current_active_user d tok")
  case (Inl e)
  with assms show ?thesis by (simp add: create_message_def)
next
  case (Inr u)
  then have tok: "u_id u = tok" by (simp add: get_current_active_user_in_users)
  have "activities (snd (crud_message_create d now md tok)) = activities d"
    by (simp add: crud_message_create_def Let_def)
  then show ?thesis
    using assms Inr tok
    by (auto simp: create_message_def Let_def split_beta activities_foldl_notify[where f = "\<lambda>x. x"]
          activities_log split: option.splits if_splits)
qed

lemma update_complaint_activity:
  assumes "fst (update_complaint d tok cid upd) = Inr c'"
  shows "\<exists>old. crud_complaint_get d cid = Some old
          \<and> activities (snd (update_complaint d tok cid upd))
              = activities d
                @ (case cu_status upd of
                     None \<Rightarrow> []
                   | Some s \<Rightarrow> if c_status old \<noteq> s
                       then [\<lparr> a_action = ''status_changed'', a_complaint_id = cid,
                               a_user_id = tok, a_old_value = Some (status_value (c_status old)),
                               a_new_value = Some (status_value s) \<rparr>]
                       else [])
                @ (case cu_priority upd of
                     None \<Rightarrow> []
                   | Some p \<Rightarrow> if c_priority old \<noteq> p
                       then [\<lparr> a_action = ''priority_changed'', a_complaint_id = cid,
                               a_user_id = tok, a_old_value = Some (priority_value (c_priority old)),
                               a_new_value = Some (priority_value p) \<rparr>]
                       else [])"
proof (cases "get_current_active_user d tok")
  case (Inl e)
  with assms show ?thesis by (simp add: update_complaint_def)
next
  case (Inr u)
  then have tok: "u_id u = tok" by (simp add: get_current_active_user_in_users)
  show ?thesis
  proof (cases "crud_complaint_get d cid")
    case None
    with assms Inr show ?thesis by (simp add: update_complaint_def)
  next
    case (Some old)
    have "activities (snd (crud_complaint_update d old upd)) = activities d"
      by (simp add: crud_complaint_update_def)
    then show ?thesis
      using assms Inr Some tok
      by (auto simp: update_complaint_def Let_def split_beta log_update_changes_def activities_log
            split: option.splits if_splits)
  qed
qed

text \<open>
  The claim C7 as first stated gives every mutating operation exactly one activity row.
  \<^verbatim>\<open>update_complaint\<close> logs one row for a changed status and one for a changed
  priority: a request that changes both leaves two rows, and a request that changes only
  the category changes the complaint and leaves none.
\<close>

theorem update_complaint_activity_rows_counterexample:
  "fst (update_complaint ex_db 1 1 ex_escalate)
     = Inr (ex_complaint\<lparr> c_priority := URGENT, c_status := ESCALATED \<rparr>)
   \<and> activities (snd (update_complaint ex_db 1 1 ex_escalate))
     = activities ex_db @
       [\<lparr> a_action = ''status_changed'', a_complaint_id = 1, a_user_id = 1,
          a_old_value = Some ''submitted'', a_new_value = Some ''escalated'' \<rparr>,
        \<lparr> a_action = ''priority_changed'', a_complaint_id = 1, a_user_id = 1,
          a_old_value = Some ''medium'', a_new_value = Some ''urgent'' \<rparr>]
   \<and> fst (update_complaint ex_db 1 1 ex_recategorise) = Inr (ex_complaint\<lparr> c_category := SAFETY \<rparr>)
   \<and> complaints (snd (update_complaint ex_db 1 1 ex_recategorise)) \<noteq> complaints ex_db
   \<and> activities (snd (update_complaint ex_db 1 1 ex_recategorise)) = activities ex_db"
  by code_simp

text \<open>
  C7, amended. Each of these operations, when it succeeds, appends to the activity log
  and changes no earlier row: creating a complaint, assigning users and adding a message
  append exactly one row with no old and no new value; the status request appends
  exactly one row holding the old and the new status; \<^verbatim>\<open>update_complaint\<close> appends
  one row with old and new value for the status if the request changes it, then one for
  the priority if the request changes it, and no other row. Adding a file is not part of
  the statement.
\<close>

theorem activity_rows:
  "(fst (create_complaint d tok now cd) = Inr c \<longrightarrow>
      activities (snd (create_complaint d tok now cd))
        = activities d @ [\<lparr> a_action = ''complaint_created'', a_complaint_id = c_id c,
                             a_user_id = tok, a_old_value = None, a_new_value = None \<rparr>])
   \<and> (fst (update_complaint_status d tok now cid su) = Inr () \<longrightarrow>
      (\<exists>old. crud_complaint_get d cid = Some old
          \<and> activities (snd (update_complaint_status d tok now cid su))
              = activities d @ [\<lparr> a_action = ''status_updated'', a_complaint_id = cid,
                   a_user_id = tok, a_old_value = Some (status_value (c_status old)),
                   a_new_value = Some (status_value (su_status su)) \<rparr>]))
   \<and> (fst (assign_complaint d tok cid ids) = Inr () \<longrightarrow>
      activities (snd (assign_complaint d tok cid ids))
        = activities d @ [\<lparr> a_action = ''complaint_assigned'', a_complaint_id = cid,
                             a_user_id = tok, a_old_value = None, a_new_value = None \<rparr>])
   \<and> (fst (create_message d tok now cid md) = Inr m \<longrightarrow>
      activities (snd (create_message d tok now cid md))
        = activities d @ [\<lparr> a_action = ''message_added'', a_complaint_id = cid,
                             a_user_id = tok, a_old_value = None, a_new_value = None \<rparr>])
   \<and> (fst (update_complaint d tok cid upd) = Inr c' \<longrightarrow>
      (\<exists>old. crud_complaint_get d cid = Some old
          \<and> activities (snd (update_complaint d tok cid upd))
              = activities d
                @ (case cu_status upd of
                     None \<Rightarrow> []
                   | Some s \<Rightarrow> if c_status old \<noteq> s
                       then [\<lparr> a_action = ''status_changed'', a_complaint_id = cid,
                               a_user_id = tok, a_old_value = Some (status_value (c_status old)),
                               a_new_value = Some (status_value s) \<rparr>]
                       else [])
                @ (case cu_priority upd of
                     None \<Rightarrow> []
                   | Some p \<Rightarrow> if c_priority old \<noteq> p
                       then [\<lparr> a_action = ''priority_changed'', a_complaint_id = cid,
                               a_user_id = tok, a_old_value = Some (priority_value (c_priority old)),
                               a_new_value = Some (priority_value p) \<rparr>]
                       else [])))"
  by (intro conjI impI create_complaint_activity update_complaint_status_activity
        assign_complaint_activity create_message_activity
        update_complaint_activity)

theorem activity_rows_witness:
  "fst (create_complaint ex_db 2 5000 (ex_complaint_data 1)) = Inr (ex_new_complaint 2)
   \<and> activities (snd (create_complaint ex_db 2 5000 (ex_complaint_data 1)))
       = activities ex_db @ [\<lparr> a_action = ''complaint_created'',
            a_complaint_id = c_id (ex_new_complaint 2), a_user_id = 2,
            a_old_value = None, a_new_value = None \<rparr>]
   \<and> fst (update_complaint_status ex_db 1 5000 1 ex_review) = Inr ()
   \<and> activities (snd (update_complaint_status ex_db 1 5000 1 ex_review))
       = activities ex_db @ [\<lparr> a_action = ''status_updated'', a_complaint_id = 1, a_user_id = 1,
            a_old_value = Some (status_value (c_status ex_complaint)),
            a_new_value = Some (status_value (su_status ex_review)) \<rparr>]
   \<and> fst (assign_complaint ex_db 1 1 [3, 1]) = Inr ()
   \<and> activities (snd (assign_complaint ex_db 1 1 [3, 1]))
       = activities ex_db @ [\<lparr> a_action = ''complaint_assigned'', a_complaint_id = 1,
            a_user_id = 1, a_old_value = None, a_new_value = None \<rparr>]
   \<and> fst (create_message ex_db 2 5000 1 ex_message_data)
       = Inr \<lparr> m_id = 3, m_complaint_id = 1, m_sender_id = 2, m_is_internal = False,
               m_created_at = 5000 \<rparr>
   \<and> activities (snd (create_message ex_db 2 5000 1 ex_message_data))
       = activities ex_db @ [\<lparr> a_action = ''message_added'', a_complaint_id = 1,
            a_user_id = 2, a_old_value = None, a_new_value = None \<rparr>]
   \<and> fst (update_complaint ex_db 1 1 ex_reopen) = Inr (ex_complaint\<lparr> c_status := IN_PROGRESS \<rparr>)
   \<and> activities (snd (update_complaint ex_db 1 1 ex_reopen))
       = activities ex_db @ [\<lparr> a_action = ''status_changed'', a_complaint_id = 1, a_user_id = 1,
            a_old_value = Some (status_value (c_status ex_complaint)),
            a_new_value = Some (status_value IN_PROGRESS) \<rparr>]"
proof -
  have h1: "fst (create_complaint ex_db 2 5000 (ex_complaint_data 1)) = Inr (ex_new_complaint 2)"
    by code_simp
  have h2: "fst (update_complaint_status ex_db 1 5000 1 ex_review) = Inr ()" by code_simp
  have h3: "fst (assign_complaint ex_db 1 1 [3, 1]) = Inr ()" by code_simp
  have h4: "fst (create_message ex_db 2 5000 1 ex_message_data)
       = Inr \<lparr> m_id = 3, m_complaint_id = 1, m_sender_id = 2, m_is_internal = False,
               m_created_at = 5000 \<rparr>"
    by code_simp
  have h6: "fst (update_complaint ex_db 1 1 ex_reopen) = Inr (ex_complaint\<lparr> c_status := IN_PROGRESS \<rparr>)"
    by code_simp
  have g: "crud_complaint_get ex_db 1 = Some ex_complaint" by code_simp
  have u1: "cu_status ex_reopen = Some IN_PROGRESS" "cu_priority ex_reopen = None"
    by (simp_all add: ex_reopen_def)
  have u2: "c_status ex_complaint \<noteq> IN_PROGRESS" by (simp add: ex_complaint_def)
  note r1 = mp [OF conjunct1 [OF activity_rows [where d = ex_db and tok = 2 and now = 5000
        and cd = "ex_complaint_data 1" and c = "ex_new_complaint 2"]] h1]
  note T2 = conjunct2 [OF activity_rows [where d = ex_db and tok = 1 and now = 5000 and cid = 1
        and su = ex_review and ids = "[3, 1]" and upd = ex_reopen
        and c' = "ex_complaint\<lparr> c_status := IN_PROGRESS \<rparr>"]]
  note T3 = conjunct2 [OF T2]
  note T6 = conjunct2 [OF conjunct2 [OF T3]]
  note S3 = conjunct2 [OF conjunct2 [OF conjunct2 [OF activity_rows [where d = ex_db and tok = 2
        and now = 5000 and cid = 1 and md = ex_message_data
        and m = "\<lparr> m_id = 3, m_complaint_id = 1, m_sender_id = 2, m_is_internal = False,
               m_created_at = 5000 \<rparr>"]]]]
  from mp [OF conjunct1 [OF T2] h2] g
  have r2: "activities (snd (update_complaint_status ex_db 1 5000 1 ex_review))
       = activities ex_db @ [\<lparr> a_action = ''status_updated'', a_complaint_id = 1, a_user_id = 1,
            a_old_value = Some (status_value (c_status ex_complaint)),
            a_new_value = Some (status_value (su_status ex_review)) \<rparr>]"
    by auto
  note r3 = mp [OF conjunct1 [OF T3] h3]
  note r4 = mp [OF conjunct1 [OF S3] h4]
  from mp [OF T6 h6] g
  have r6: "activities (snd (update_complaint ex_db 1 1 ex_reopen))
       = activities ex_db @ [\<lparr> a_action = ''status_changed'', a_complaint_id = 1, a_user_id = 1,
            a_old_value = Some (status_value (c_status ex_complaint)),
            a_new_value = Some (status_value IN_PROGRESS) \<rparr>]"
    by (auto simp: u1 u2)
  from h1 r1 h2 r2 h3 r3 h4 r4 h6 r6 show ?thesis by (intro conjI)
qed

text \<open>
  Adding a file: the attachment row is committed without its uploader, which the table
  requires, so \<^verbatim>\<open>upload_file\<close> answers with an error for every request and leaves the
  database, the activity log included, as it was.
\<close>

lemma upload_file_logs_nothing:
  "fst (upload_file d tok cid upfile saved) \<noteq> Inr aid
   \<and> snd (upload_file d tok cid upfile saved) = d"
  using upload_file_fails [of d tok cid upfile saved] by auto

lemma upload_file_example:
  "upload_file ex_db 2 1 ex_file True = (Inl (HTTPException 500 ''Failed to upload file''), ex_db)"
  by code_simp

section \<open>Reading the messages of a complaint\<close>

lemma get_messages_result:
  assumes "get_current_active_user d tok = Inr actor" "get_messages d tok cid inc = Inr ms"
  shows "ms = crud_message_get_by_complaint d cid
                (inc \<and> u_role actor \<in> {STAFF, ADMIN, SUPER_ADMIN})"
  using assms
  by (auto simp: get_messages_def Let_def split: option.splits if_splits)

lemma set_crud_message_get_by_complaint:
  "set (crud_message_get_by_complaint d cid inc)
     = {m \<in> set (messages d). m_complaint_id m = cid \<and> (inc \<or> \<not> m_is_internal m)}"
  by (auto simp: crud_message_get_by_complaint_def Let_def)

text \<open>
  What \<^verbatim>\<open>get_messages\<close> returns. To a caller who is not staff, admin or super admin
  it returns no internal message, whatever the flag \<open>include_internal\<close> of the request:
  the result holds exactly the complaint's messages that are not internal. The same
  holds for a staff, admin or super admin caller who does not ask for internal messages;
  one who asks receives all messages of the complaint. A caller without access to the
  complaint receives 403 and no message.
\<close>

theorem get_messages_internal_filter:
  "(get_current_active_user d tok = Inr actor \<and> get_messages d tok cid inc = Inr ms \<longrightarrow>
      (u_role actor \<notin> {STAFF, ADMIN, SUPER_ADMIN} \<or> \<not> inc \<longrightarrow>
          (\<forall>m \<in> set ms. \<not> m_is_internal m)
          \<and> set ms = {m \<in> set (messages d). m_complaint_id m = cid \<and> \<not> m_is_internal m})
      \<and> (u_role actor \<in> {STAFF, ADMIN, SUPER_ADMIN} \<and> inc \<longrightarrow>
          set ms = {m \<in> set (messages d). m_complaint_id m = cid}))
   \<and> (get_current_active_user d tok = Inr actor \<and> crud_complaint_get d cid = Some c
        \<and> \<not> can_access_complaint actor c
      \<longrightarrow> get_messages d tok cid inc = Inl (HTTPException 403 ''Access denied''))"
proof -
  have denied: "get_messages d tok cid inc = Inl (HTTPException 403 ''Access denied'')"
    if "get_current_active_user d tok = Inr actor" "crud_complaint_get d cid = Some c"
      "\<not> can_access_complaint actor c"
    using that by (simp add: get_messages_def)
  have shown: "(u_role actor \<notin> {STAFF, ADMIN, SUPER_ADMIN} \<or> \<not> inc \<longrightarrow>
          (\<forall>m \<in> set ms. \<not> m_is_internal m)
          \<and> set ms = {m \<in> set (messages d). m_complaint_id m = cid \<and> \<not> m_is_internal m})
      \<and> (u_role actor \<in> {STAFF, ADMIN, SUPER_ADMIN} \<and> inc \<longrightarrow>
          set ms = {m \<in> set (messages d). m_complaint_id m = cid})"
    if a: "get_current_active_user d tok = Inr actor" and r: "get_messages d tok cid inc = Inr ms"
  proof -
    have "set ms = {m \<in> set (messages d). m_complaint_id m = cid
             \<and> ((inc \<and> u_role actor \<in> {STAFF, ADMIN, SUPER_ADMIN}) \<or> \<not> m_is_internal m)}"
      unfolding get_messages_result[OF a r] by (rule set_crud_message_get_by_complaint)
    then show ?thesis by blast
  qed
  from denied shown show ?thesis by blast
qed



theorem get_messages_internal_filter_witness:
  "get_current_active_user ex_db 2 = Inr ex_student
   \<and> get_messages ex_db 2 1 True = Inr [ex_public_message]
   \<and> u_role ex_student \<notin> {STAFF, ADMIN, SUPER_ADMIN}
   \<and> ex_internal_message \<in> set (messages ex_db)
   \<and> m_complaint_id ex_internal_message = 1
   \<and> m_is_internal ex_internal_message
   \<and> \<not> m_is_internal ex_public_message
   \<and> set [ex_public_message]
       = {m \<in> set (messages ex_db). m_complaint_id m = 1 \<and> \<not> m_is_internal m}
   \<and> get_current_active_user ex_db 1 = Inr ex_admin
   \<and> u_role ex_admin \<in> {STAFF, ADMIN, SUPER_ADMIN}
   \<and> get_messages ex_db 1 1 True = Inr [ex_public_message, ex_internal_message]
   \<and> set [ex_public_message, ex_internal_message]
       = {m \<in> set (messages ex_db). m_complaint_id m = 1}
   \<and> get_current_active_user ex_db 6 = Inr ex_other_student
   \<and> crud_complaint_get ex_db 1 = Some ex_complaint
   \<and> \<not> can_access_complaint ex_other_student ex_complaint
   \<and> get_messages ex_db 6 1 True = Inl (HTTPException 403 ''Access denied'')"
proof -
  have a1: "get_current_active_user ex_db 2 = Inr ex_student" by code_simp
  have a2: "get_messages ex_db 2 1 True = Inr [ex_public_message]" by code_simp
  have a3: "u_role ex_student \<notin> {STAFF, ADMIN, SUPER_ADMIN}" by code_simp
  have a4: "ex_internal_message \<in> set (messages ex_db)" by code_simp
  have a5: "m_complaint_id ex_internal_message = 1" by code_simp
  have a6: "m_is_internal ex_internal_message" by code_simp
  have b1: "get_current_active_user ex_db 1 = Inr ex_admin" by code_simp
  have b2: "u_role ex_admin \<in> {STAFF, ADMIN, SUPER_ADMIN}" by code_simp
  have b3: "get_messages ex_db 1 1 True = Inr [ex_public_message, ex_internal_message]" by code_simp
  have c1: "get_current_active_user ex_db 6 = Inr ex_other_student" by code_simp
  have c2: "crud_complaint_get ex_db 1 = Some ex_complaint" by code_simp
  have c3: "\<not> can_access_complaint ex_other_student ex_complaint" by code_simp
  note A = mp [OF conjunct1 [OF get_messages_internal_filter [where d = ex_db and tok = 2
        and actor = ex_student and cid = 1 and inc = True and ms = "[ex_public_message]"]]
      conjI [OF a1 a2]]
  note AA = mp [OF conjunct1 [OF A] disjI1 [OF a3]]
  note ra = conjunct1 [OF AA]
  note rb = conjunct2 [OF AA]
  from ra have ra': "\<not> m_is_internal ex_public_message" by simp
  note B = mp [OF conjunct1 [OF get_messages_internal_filter [where d = ex_db and tok = 1
        and actor = ex_admin and cid = 1 and inc = True
        and ms = "[ex_public_message, ex_internal_message]"]]
      conjI [OF b1 b3]]
  note rc = mp [OF conjunct2 [OF B] conjI [OF b2 TrueI]]
  note rd = mp [OF conjunct2 [OF get_messages_internal_filter [where d = ex_db and tok = 6
        and actor = ex_other_student and cid = 1 and inc = True and c = ex_complaint]]
      conjI [OF c1 conjI [OF c2 c3]]]
  from a1 a2 a3 a4 a5 a6 ra' rb b1 b2 b3 rc c1 c2 c3 rd show ?thesis by (intro conjI)
qed

text \<open>
  \<^verbatim>\<open>get_complaint\<close> returns all messages of the complaint to every caller with access.
\<close>

lemma get_complaint_messages:
  assumes "get_complaint d tok cid = Inr cd"
  shows "cd_messages cd = filter (\<lambda>m. m_complaint_id m = cid) (messages d)"
proof -
  from assms obtain c where f: "find (\<lambda>c. c_id c = cid) (complaints d) = Some c"
    and m: "cd_messages cd = filter (\<lambda>m. m_complaint_id m = c_id c) (messages d)"
    by (auto simp: get_complaint_def crud_complaint_get_with_details_def
          split: sum.splits option.splits if_splits)
  from f have "c_id c = cid" by (auto dest: find_Some_set)
  with m show ?thesis by simp
qed

text \<open>
  C8. The student of the example filed complaint 1, which has one public and one internal
  message. Reading the complaint through \<^verbatim>\<open>get_complaint\<close>, the student receives both
  messages, the internal one included; reading the messages through \<^verbatim>\<open>get_messages\<close>
  with \<open>include_internal\<close> set, the same student receives the public one only.
\<close>

theorem complaint_detail_returns_internal_messages:
  "get_current_active_user ex_db 2 = Inr ex_student
   \<and> u_role ex_student = STUDENT
   \<and> c_complainant_id ex_complaint = u_id ex_student
   \<and> m_is_internal ex_internal_message
   \<and> map_sum id cd_messages (get_complaint ex_db 2 1)
       = Inr [ex_public_message, ex_internal_message]
   \<and> get_messages ex_db 2 1 True = Inr [ex_public_message]"
  by code_simp

section \<open>Statistics\<close>








section \<open>Marking a notification as read\<close>

lemma find_split_update_first:
  "find p xs = Some x \<Longrightarrow>
     \<exists>pre post. xs = pre @ x # post \<and> (\<forall>y \<in> set pre. \<not> p y) \<and> p x
        \<and> update_first p f xs = pre @ f x # post"
proof (induction xs)
  case Nil
  then show ?case by simp
next
  case (Cons a xs)
  show ?case
  proof (cases "p a")
    case True
    with Cons.prems have "a = x" by simp
    with True have "a # xs = [] @ x # xs \<and> (\<forall>y \<in> set []. \<not> p y) \<and> p x
        \<and> update_first p f (a # xs) = [] @ f x # xs"
      by simp
    then show ?thesis by blast
  next
    case False
    with Cons.prems have "find p xs = Some x" by simp
    from Cons.IH[OF this] obtain pre post where
      "xs = pre @ x # post" "\<forall>y \<in> set pre. \<not> p y" "p x"
      "update_first p f xs = pre @ f x # post"
      by blast
    with False have "a # xs = (a # pre) @ x # post \<and> (\<forall>y \<in> set (a # pre). \<not> p y) \<and> p x
        \<and> update_first p f (a # xs) = (a # pre) @ f x # post"
      by simp
    then show ?thesis by blast
  qed
qed

text \<open>
  C10. \<^verbatim>\<open>mark_as_read\<close> changes no table but the notifications, and there each row
  stays as it was or, having the given id and belonging to the given user, has its read
  flag set and nothing else changed. When no notification with the given id belongs to
  the user, nothing changes and the result is \<^verbatim>\<open>None\<close>. When one does, the first such
  row is stored with its read flag set, all other rows and fields as they were, and is
  returned. The handler \<^verbatim>\<open>mark_notification_read\<close> leaves the database that
  \<^verbatim>\<open>mark_as_read\<close> leaves for the caller's own id; it answers with success when the
  notification is the caller's, and with 404 and the database unchanged when it is
  another user's.
\<close>

theorem mark_as_read_own_only:
  "(let r = crud_notification_mark_as_read d notification_id user_id
    in snd r = d\<lparr> notifications := notifications (snd r) \<rparr>
       \<and> list_all2 (\<lambda>old new. new = old
              \<or> (n_id old = notification_id \<and> n_user_id old = user_id
                  \<and> new = old\<lparr> n_is_read := True \<rparr>))
            (notifications d) (notifications (snd r))
       \<and> ((\<forall>n \<in> set (notifications d). n_id n = notification_id \<longrightarrow> n_user_id n \<noteq> user_id)
            \<longrightarrow> r = (None, d))
       \<and> ((\<exists>n \<in> set (notifications d). n_id n = notification_id \<and> n_user_id n = user_id)
            \<longrightarrow> (\<exists>pre old post.
                   notifications d = pre @ old # post
                   \<and> (\<forall>n \<in> set pre. \<not> (n_id n = notification_id \<and> n_user_id n = user_id))
                   \<and> n_id old = notification_id \<and> n_user_id old = user_id
                   \<and> fst r = Some (old\<lparr> n_is_read := True \<rparr>)
                   \<and> notifications (snd r) = pre @ old\<lparr> n_is_read := True \<rparr> # post))
       \<and> (\<forall>n. fst r = Some n \<longrightarrow>
              n_id n = notification_id \<and> n_user_id n = user_id \<and> n_is_read n
              \<and> (\<exists>old \<in> set (notifications d). n = old\<lparr> n_is_read := True \<rparr>)))
   \<and> (get_current_active_user d tok = Inr actor
      \<longrightarrow> snd (mark_notification_read d tok notification_id)
            = snd (crud_notification_mark_as_read d notification_id (u_id actor)))
   \<and> (get_current_active_user d tok = Inr actor
        \<and> (\<exists>n \<in> set (notifications d). n_id n = notification_id \<and> n_user_id n = u_id actor)
      \<longrightarrow> fst (mark_notification_read d tok notification_id) = Inr ())
   \<and> (get_current_active_user d tok = Inr actor
        \<and> (\<forall>n \<in> set (notifications d). n_id n = notification_id \<longrightarrow> n_user_id n \<noteq> u_id actor)
      \<longrightarrow> mark_notification_read d tok notification_id
            = (Inl (HTTPException 404 ''Notification not found''), d))"
proof -
  let ?p = "\<lambda>n. n_id n = notification_id \<and> n_user_id n = user_id"
  let ?f = "\<lambda>n. n\<lparr> n_is_read := True \<rparr>"
  let ?r = "crud_notification_mark_as_read d notification_id user_id"
  have rows: "list_all2 (\<lambda>old new. new = old \<or> (p old \<and> new = f old)) xs (update_first p f xs)"
    for p f and xs :: "Notification list"
    by (induction xs) (auto simp: list_all2_same)
  have frame: "snd ?r = d\<lparr> notifications := notifications (snd ?r) \<rparr>"
    by (simp add: crud_notification_mark_as_read_def split: option.splits)
  have "notifications (snd ?r) = update_first ?p ?f (notifications d)"
    by (simp add: crud_notification_mark_as_read_def find_None_update_first split: option.splits)
  then have changed: "list_all2 (\<lambda>old new. new = old
              \<or> (n_id old = notification_id \<and> n_user_id old = user_id
                  \<and> new = old\<lparr> n_is_read := True \<rparr>))
            (notifications d) (notifications (snd ?r))"
    using rows[of ?p ?f "notifications d"] by simp
  have none: "find (\<lambda>n. n_id n = notification_id \<and> n_user_id n = uid) (notifications d) = None"
    if "\<forall>n \<in> set (notifications d). n_id n = notification_id \<longrightarrow> n_user_id n \<noteq> uid" for uid
    using that by (auto simp: find_None_iff)
  have some: "\<exists>x. find (\<lambda>n. n_id n = notification_id \<and> n_user_id n = uid) (notifications d) = Some x"
    if "\<exists>n \<in> set (notifications d). n_id n = notification_id \<and> n_user_id n = uid" for uid
  proof (cases "find (\<lambda>n. n_id n = notification_id \<and> n_user_id n = uid) (notifications d)")
    case None
    with that show ?thesis by (auto simp: find_None_iff)
  next
    case (Some x)
    then show ?thesis by blast
  qed
  have foreign: "?r = (None, d)"
    if "\<forall>n \<in> set (notifications d). n_id n = notification_id \<longrightarrow> n_user_id n \<noteq> user_id"
    using none[OF that] by (simp add: crud_notification_mark_as_read_def)
  have own: "\<exists>pre old post.
                   notifications d = pre @ old # post
                   \<and> (\<forall>n \<in> set pre. \<not> (n_id n = notification_id \<and> n_user_id n = user_id))
                   \<and> n_id old = notification_id \<and> n_user_id old = user_id
                   \<and> fst ?r = Some (old\<lparr> n_is_read := True \<rparr>)
                   \<and> notifications (snd ?r) = pre @ old\<lparr> n_is_read := True \<rparr> # post"
    if "\<exists>n \<in> set (notifications d). n_id n = notification_id \<and> n_user_id n = user_id"
  proof -
    from some[OF that] obtain x where x: "find ?p (notifications d) = Some x" by blast
    from find_split_update_first[OF x, of ?f] obtain pre post where
      sp: "notifications d = pre @ x # post" "\<forall>y \<in> set pre. \<not> ?p y" "?p x"
        "update_first ?p ?f (notifications d) = pre @ ?f x # post"
      by blast
    have "fst ?r = Some (?f x)" "notifications (snd ?r) = update_first ?p ?f (notifications d)"
      using x by (simp_all add: crud_notification_mark_as_read_def)
    with sp show ?thesis by metis
  qed
  have returned: "n_id n = notification_id \<and> n_user_id n = user_id \<and> n_is_read n
              \<and> (\<exists>old \<in> set (notifications d). n = old\<lparr> n_is_read := True \<rparr>)"
    if "fst ?r = Some n" for n
    using that
    by (auto simp: crud_notification_mark_as_read_def split: option.splits dest: find_Some_set)
  have route: "mark_notification_read d tok notification_id
            = (Inl (HTTPException 404 ''Notification not found''), d)"
    if "get_current_active_user d tok = Inr actor"
      "\<forall>n \<in> set (notifications d). n_id n = notification_id \<longrightarrow> n_user_id n \<noteq> u_id actor"
    using that(1) none[OF that(2)]
    by (simp add: mark_notification_read_def crud_notification_mark_as_read_def)
  have route_ok: "fst (mark_notification_read d tok notification_id) = Inr ()"
    if "get_current_active_user d tok = Inr actor"
      "\<exists>n \<in> set (notifications d). n_id n = notification_id \<and> n_user_id n = u_id actor"
  proof -
    from some[OF that(2)] obtain x where
      "find (\<lambda>n. n_id n = notification_id \<and> n_user_id n = u_id actor) (notifications d) = Some x"
      by blast
    with that(1) show ?thesis
      by (simp add: mark_notification_read_def crud_notification_mark_as_read_def)
  qed
  have route_state: "snd (mark_notification_read d tok notification_id)
            = snd (crud_notification_mark_as_read d notification_id (u_id actor))"
    if "get_current_active_user d tok = Inr actor"
    using that by (simp add: mark_notification_read_def split: prod.splits option.splits)
  show ?thesis
    unfolding Let_def
    using frame changed foreign own returned route route_ok route_state by blast
qed


theorem mark_as_read_own_only_witness:
  "notifications ex_db = [ex_notification]
   \<and> n_id ex_notification = 1 \<and> n_user_id ex_notification = 3
   \<and> \<not> n_is_read ex_notification
   \<and> crud_notification_mark_as_read ex_db 1 2 = (None, ex_db)
   \<and> get_current_active_user ex_db 2 = Inr ex_student
   \<and> mark_notification_read ex_db 2 1
       = (Inl (HTTPException 404 ''Notification not found''), ex_db)
   \<and> fst (crud_notification_mark_as_read ex_db 1 3) = Some (ex_notification\<lparr> n_is_read := True \<rparr>)
   \<and> notifications (snd (crud_notification_mark_as_read ex_db 1 3))
       = [ex_notification\<lparr> n_is_read := True \<rparr>]
   \<and> n_user_id (ex_notification\<lparr> n_is_read := True \<rparr>) = 3
   \<and> n_is_read (ex_notification\<lparr> n_is_read := True \<rparr>)
   \<and> get_current_active_user ex_db 3 = Inr ex_staff
   \<and> fst (mark_notification_read ex_db 3 1) = Inr ()
   \<and> notifications (snd (mark_notification_read ex_db 3 1))
       = [ex_notification\<lparr> n_is_read := True \<rparr>]"
proof -
  have n0: "notifications ex_db = [ex_notification]" by code_simp
  have n1: "n_id ex_notification = 1" "n_user_id ex_notification = 3"
    by (simp_all add: ex_notification_def)
  have n2: "\<not> n_is_read ex_notification" by (simp add: ex_notification_def)
  have u2: "get_current_active_user ex_db 2 = Inr ex_student" by code_simp
  have u3: "get_current_active_user ex_db 3 = Inr ex_staff" by code_simp
  have i2: "u_id ex_student = 2" by (simp add: ex_student_def)
  have i3: "u_id ex_staff = 3" by (simp add: ex_staff_def)
  have f1: "\<forall>n \<in> set (notifications ex_db). n_id n = 1 \<longrightarrow> n_user_id n \<noteq> 2"
    unfolding n0 by (simp add: n1)
  have f2: "\<forall>n \<in> set (notifications ex_db). n_id n = 1 \<longrightarrow> n_user_id n \<noteq> u_id ex_student"
    unfolding i2 by (rule f1)
  have e1: "\<exists>n \<in> set (notifications ex_db). n_id n = 1 \<and> n_user_id n = 3"
    unfolding n0 by (simp add: n1)
  have e2: "\<exists>n \<in> set (notifications ex_db). n_id n = 1 \<and> n_user_id n = u_id ex_staff"
    unfolding i3 by (rule e1)
  note A = mark_as_read_own_only [where d = ex_db and notification_id = 1 and user_id = 2
      and tok = 2 and actor = ex_student, unfolded Let_def]
  note B = mark_as_read_own_only [where d = ex_db and notification_id = 1 and user_id = 3
      and tok = 3 and actor = ex_staff, unfolded Let_def]
  note A1 = conjunct1 [OF A]
  note r1 = mp [OF conjunct1 [OF conjunct2 [OF conjunct2 [OF A1]]] f1]
  note r2 = mp [OF conjunct2 [OF conjunct2 [OF conjunct2 [OF A]]] conjI [OF u2 f2]]
  note B1 = conjunct1 [OF B]
  note own = mp [OF conjunct1 [OF conjunct2 [OF conjunct2 [OF conjunct2 [OF B1]]]] e1]
  from own obtain pre old post where o:
      "notifications ex_db = pre @ old # post"
      "fst (crud_notification_mark_as_read ex_db 1 3) = Some (old\<lparr> n_is_read := True \<rparr>)"
      "notifications (snd (crud_notification_mark_as_read ex_db 1 3))
         = pre @ old\<lparr> n_is_read := True \<rparr> # post"
    by blast
  from o(1) have sh: "pre = [] \<and> old = ex_notification \<and> post = []"
    unfolding n0 by (cases pre) simp_all
  from o(2) sh have g: "fst (crud_notification_mark_as_read ex_db 1 3)
        = Some (ex_notification\<lparr> n_is_read := True \<rparr>)"
    by simp
  from o(3) sh have st: "notifications (snd (crud_notification_mark_as_read ex_db 1 3))
       = [ex_notification\<lparr> n_is_read := True \<rparr>]"
    by simp
  have r3a: "n_user_id (ex_notification\<lparr> n_is_read := True \<rparr>) = 3" by (simp add: n1)
  have r3b: "n_is_read (ex_notification\<lparr> n_is_read := True \<rparr>)" by simp
  note r4 = mp [OF conjunct1 [OF conjunct2 [OF B]] u3]
  note r5 = mp [OF conjunct1 [OF conjunct2 [OF conjunct2 [OF B]]] conjI [OF u3 e2]]
  have r6: "notifications (snd (mark_notification_read ex_db 3 1))
       = [ex_notification\<lparr> n_is_read := True \<rparr>]"
    unfolding r4 i3 by (rule st)
  from n0 n1 n2 r1 u2 r2 g st r3a r3b u3 r5 r6 show ?thesis by (intro conjI)
qed

end
